theory Spec2Isabelle
  imports Complex_Main
begin

section \<open>JavaScript strings and numbers\<close>

text \<open>
  Strings are lists of code units; the model keeps the code units below 256, which is
  all a \<^typ>\<open>char\<close> can hold. \<open>String.prototype.trim\<close> strips white space and
  line terminators from both ends; in this range these are the code units
  9 to 13, 32 and 160.
\<close>

definition char_code :: "char \<Rightarrow> nat" where
  "char_code c = of_char c"

definition js_whitespace :: "char \<Rightarrow> bool" where
  "js_whitespace c = (char_code c \<in> {9, 10, 11, 12, 13, 32, 160})"

definition trim :: "string \<Rightarrow> string" where
  "trim s = rev (dropWhile js_whitespace (rev (dropWhile js_whitespace s)))"

text \<open>\<open>'#'.repeat(n)\<close> on an integer count; a negative count is a RangeError.\<close>

definition repeat :: "string \<Rightarrow> int \<Rightarrow> string option" where
  "repeat s n = (if n < 0 then None else Some (concat (replicate (nat n) s)))"

text \<open>A string is truthy unless it is empty; an absent field is falsy.\<close>

definition truthy_string :: "string option \<Rightarrow> bool" where
  "truthy_string s = (case s of None \<Rightarrow> False | Some v \<Rightarrow> v \<noteq> [])"

definition truthy_bool :: "bool option \<Rightarrow> bool" where
  "truthy_bool b = (b = Some True)"

definition truthy_int :: "int option \<Rightarrow> bool" where
  "truthy_int n = (case n of None \<Rightarrow> False | Some v \<Rightarrow> v \<noteq> 0)"

text \<open>Decimal rendering of a number inside a template literal.\<close>

fun string_of_nat :: "nat \<Rightarrow> string" where
  "string_of_nat n =
     (if n < 10 then [char_of (48 + n)]
      else string_of_nat (n div 10) @ [char_of (48 + n mod 10)])"

declare string_of_nat.simps [simp del]

definition string_of_int :: "int \<Rightarrow> string" where
  "string_of_int i = (if i < 0 then CHR ''-'' # string_of_nat (nat (- i)) else string_of_nat (nat i))"

text \<open>
  \<open>parseInt(s)\<close> without a radix: leading white space is skipped, a sign is read, a
  \<open>0x\<close> prefix selects base 16, and the longest prefix of digits is the value; with no
  digit the result is NaN, here \<open>None\<close>.
\<close>

definition digit_value :: "char \<Rightarrow> nat option" where
  "digit_value c =
     (let k = char_code c in
      if 48 \<le> k \<and> k \<le> 57 then Some (k - 48)
      else if 97 \<le> k \<and> k \<le> 102 then Some (k - 87)
      else if 65 \<le> k \<and> k \<le> 70 then Some (k - 55)
      else None)"

definition is_digit :: "nat \<Rightarrow> char \<Rightarrow> bool" where
  "is_digit radix c = (case digit_value c of None \<Rightarrow> False | Some d \<Rightarrow> d < radix)"

definition digits_value :: "nat \<Rightarrow> string \<Rightarrow> nat" where
  "digits_value radix ds = foldl (\<lambda>acc c. acc * radix + (case digit_value c of None \<Rightarrow> 0 | Some d \<Rightarrow> d)) 0 ds"

definition parse_digits :: "nat \<Rightarrow> int \<Rightarrow> string \<Rightarrow> int option" where
  "parse_digits radix sign s =
     (let z = takeWhile (is_digit radix) s in
      if z = [] then None else Some (sign * int (digits_value radix z)))"

definition parseInt :: "string \<Rightarrow> int option" where
  "parseInt str =
     (let s = dropWhile js_whitespace str;
          sign = (if take 1 s = ''-'' then - 1 else 1);
          s1 = (if take 1 s = ''-'' \<or> take 1 s = ''+'' then drop 1 s else s)
      in if take 2 s1 = ''0x'' \<or> take 2 s1 = ''0X'' then parse_digits 16 sign (drop 2 s1)
         else parse_digits 10 sign s1)"

section \<open>The document tree\<close>

text \<open>
  The document snapshot is the JSON tree of the remote service. Every field the code
  reads through \<open>?.\<close> or tests for presence is an option here, \<open>None\<close> standing for
  an absent (or null) field.
\<close>

record link =
  url :: "string option"

record textStyle =
  bold :: "bool option"
  italic :: "bool option"
  underline :: "bool option"
  strikethrough :: "bool option"
  link :: "link option"

record textRun =
  content :: "string option"
  textStyle :: "textStyle option"

record paragraphElement =
  textRun :: "textRun option"

record paragraphStyle =
  namedStyleType :: "string option"

record bullet =
  listId :: "string option"

record paragraphT =
  elements :: "paragraphElement list option"
  paragraphStyle :: "paragraphStyle option"
  bullet :: "bullet option"

datatype structuralElement =
  StructuralElement
    (el_endIndex: "int option")
    (el_paragraph: "paragraphT option")
    (table: "table option")
    (sectionBreak: "unit option")
and table = Table (tableRows: "tableRow list option")
and tableRow = TableRow (tableCells: "tableCell list option")
and tableCell = TableCell (cell_content: "structuralElement list option")

record body =
  body_content :: "structuralElement list option"

record documentTab =
  tab_body :: "body option"

record tabProperties =
  tabId :: "string option"
  title :: "string option"

datatype tab =
  Tab (tabProperties: "tabProperties option")
      (documentTab: "documentTab option")
      (childTabs: "tab list option")

text \<open>
  What \<open>documents.get\<close> returns, and the \<open>contentSource\<close> of \<open>readGoogleDoc\<close>,
  which is either that document or \<open>{ body: targetTab.documentTab.body }\<close>.
\<close>

record document =
  doc_body :: "body option"
  tabs :: "tab list option"

section \<open>Markdown projection\<close>

text \<open>The helper functions of \<open>src/server.ts\<close>, lines 172 to 325.\<close>

text \<open>\<open>convertTextRunToMarkdown\<close>: the four formatting steps, in the order of the source.\<close>

definition convertTextRunToMarkdown :: "textRun \<Rightarrow> string" where
  "convertTextRunToMarkdown tr =
     (let text0 = (if truthy_string (content tr) then the (content tr) else [])
      in case textStyle tr of
           None \<Rightarrow> text0
         | Some style \<Rightarrow>
             (let text1 =
                    (if truthy_bool (bold style) \<and> truthy_bool (italic style)
                       then ''***'' @ text0 @ ''***''
                     else if truthy_bool (bold style) then ''**'' @ text0 @ ''**''
                     else if truthy_bool (italic style) then ''*'' @ text0 @ ''*''
                     else text0);
                  text2 =
                    (if truthy_bool (underline style) \<and> link style = None
                       then ''<u>'' @ text1 @ ''</u>'' else text1);
                  text3 =
                    (if truthy_bool (strikethrough style)
                       then ''~~'' @ text2 @ ''~~'' else text2)
              in case link style of
                   None \<Rightarrow> text3
                 | Some l \<Rightarrow>
                     (if truthy_string (url l)
                        then ''['' @ text3 @ ''](''  @ the (url l) @ '')'' else text3)))"

text \<open>The heading level of a named style: \<open>None\<close> when the paragraph is no heading,
  \<open>Some None\<close> when \<open>parseInt\<close> gave NaN.\<close>

definition headingLevel :: "paragraphT \<Rightarrow> int option option" where
  "headingLevel p =
     (case paragraphStyle p of
        None \<Rightarrow> None
      | Some ps \<Rightarrow>
          (if \<not> truthy_string (namedStyleType ps) then None
           else let styleType = the (namedStyleType ps) in
             if take 8 styleType = ''HEADING_'' then Some (parseInt (drop 8 styleType))
             else if styleType = ''TITLE'' then Some (Some 1)
             else if styleType = ''SUBTITLE'' then Some (Some 2)
             else None))"

definition paragraph_text :: "paragraphT \<Rightarrow> string" where
  "paragraph_text p =
     (case elements p of
        None \<Rightarrow> []
      | Some es \<Rightarrow>
          concat (map (\<lambda>e. case textRun e of None \<Rightarrow> [] | Some tr \<Rightarrow> convertTextRunToMarkdown tr) es))"

text \<open>
  \<open>convertParagraphToMarkdown\<close>. \<open>Math.min(NaN, 6)\<close> is NaN and \<open>'#'.repeat(NaN)\<close>
  is the empty string; a negative level makes \<open>repeat\<close> throw a RangeError, the
  \<open>Inl\<close> result, which carries the count.
\<close>

definition convertParagraphToMarkdown :: "paragraphT \<Rightarrow> int + string" where
  "convertParagraphToMarkdown p =
     (let text = paragraph_text p;
          isList = (bullet p \<noteq> None)
      in if headingLevel p \<noteq> None \<and> trim text \<noteq> [] then
           (case the (headingLevel p) of
              None \<Rightarrow> Inr ('' '' @ trim text @ [CHR 0x0A, CHR 0x0A])
            | Some level \<Rightarrow>
                (case repeat ''#'' (min level 6) of
                   None \<Rightarrow> Inl (min level 6)
                 | Some hashes \<Rightarrow> Inr (hashes @ '' '' @ trim text @ [CHR 0x0A, CHR 0x0A])))
         else if isList \<and> trim text \<noteq> [] then Inr (''- '' @ trim text @ [CHR 0x0A])
         else if trim text \<noteq> [] then Inr (trim text @ [CHR 0x0A, CHR 0x0A])
         else Inr [CHR 0x0A])"

text \<open>\<open>convertTableToMarkdown\<close>: the text of a cell, a row's line, the separator and
  the loop over the rows with its \<open>isFirstRow\<close> flag.\<close>

definition replace_newlines :: "string \<Rightarrow> string" where
  "replace_newlines s = map (\<lambda>c. if c = CHR 0x0A then CHR '' '' else c) s"

definition cell_run_text :: "paragraphElement \<Rightarrow> string" where
  "cell_run_text pe =
     (case textRun pe of
        None \<Rightarrow> []
      | Some tr \<Rightarrow> (if truthy_string (content tr) then trim (replace_newlines (the (content tr))) else []))"

definition cell_element_text :: "structuralElement \<Rightarrow> string" where
  "cell_element_text el =
     (case el_paragraph el of
        None \<Rightarrow> []
      | Some p \<Rightarrow> (case elements p of None \<Rightarrow> [] | Some pes \<Rightarrow> concat (map cell_run_text pes)))"

definition cellText :: "tableCell \<Rightarrow> string" where
  "cellText cell =
     (case cell_content cell of None \<Rightarrow> [] | Some els \<Rightarrow> concat (map cell_element_text els))"

definition rowText :: "tableCell list \<Rightarrow> string" where
  "rowText cells = ''|'' @ concat (map (\<lambda>cell. '' '' @ cellText cell @ '' |'') cells)"

definition separator :: "nat \<Rightarrow> string" where
  "separator n = ''|'' @ concat (replicate n '' --- |'')"

fun table_rows_loop :: "tableRow list \<Rightarrow> bool \<Rightarrow> string \<Rightarrow> string" where
  "table_rows_loop [] isFirstRow markdown = markdown"
| "table_rows_loop (row # rows) isFirstRow markdown =
     (case tableCells row of
        None \<Rightarrow> table_rows_loop rows isFirstRow markdown
      | Some cells \<Rightarrow>
          (let markdown1 = markdown @ rowText cells @ [CHR 0x0A]
           in if isFirstRow
              then table_rows_loop rows False (markdown1 @ separator (length cells) @ [CHR 0x0A])
              else table_rows_loop rows False markdown1))"

definition convertTableToMarkdown :: "table \<Rightarrow> string" where
  "convertTableToMarkdown t =
     (case tableRows t of
        None \<Rightarrow> []
      | Some rows \<Rightarrow>
          (if rows = [] then []
           else table_rows_loop rows True [CHR 0x0A] @ [CHR 0x0A]))"

text \<open>\<open>convertDocsJsonToMarkdown\<close>: the loop over the body's elements stops at the first
  exception; the result is trimmed.\<close>

fun markdown_loop :: "structuralElement list \<Rightarrow> string \<Rightarrow> int + string" where
  "markdown_loop [] markdown = Inr markdown"
| "markdown_loop (element # rest) markdown =
     (case el_paragraph element of
        Some p \<Rightarrow>
          (case convertParagraphToMarkdown p of
             Inl e \<Rightarrow> Inl e
           | Inr s \<Rightarrow> markdown_loop rest (markdown @ s))
      | None \<Rightarrow>
          (case table element of
             Some t \<Rightarrow> markdown_loop rest (markdown @ convertTableToMarkdown t)
           | None \<Rightarrow>
               (if sectionBreak element \<noteq> None
                then markdown_loop rest (markdown @ [CHR 0x0A] @ ''---'' @ [CHR 0x0A, CHR 0x0A])
                else markdown_loop rest markdown)))"

definition convertDocsJsonToMarkdown :: "body option \<Rightarrow> int + string" where
  "convertDocsJsonToMarkdown docData_body =
     (case docData_body of
        None \<Rightarrow> Inr ''Document appears to be empty.''
      | Some b \<Rightarrow>
          (case body_content b of
             None \<Rightarrow> Inr ''Document appears to be empty.''
           | Some els \<Rightarrow>
               (case markdown_loop els [] of Inl e \<Rightarrow> Inl e | Inr markdown \<Rightarrow> Inr (trim markdown))))"

section \<open>Plain-text projection\<close>

text \<open>\<open>src/server.ts\<close>, lines 399 to 430.\<close>

text \<open>
  The text branch of \<open>readGoogleDoc\<close> appends to \<open>textContent\<close> while it walks
  the elements: the runs of a paragraph, then the runs of the paragraphs of every cell of
  every row of a table. The loops are written with their accumulator, as in the source.
\<close>

fun text_runs_loop :: "paragraphElement list \<Rightarrow> string \<Rightarrow> string" where
  "text_runs_loop [] textContent = textContent"
| "text_runs_loop (pe # pes) textContent =
     (case textRun pe of
        None \<Rightarrow> text_runs_loop pes textContent
      | Some tr \<Rightarrow>
          (if truthy_string (content tr)
           then text_runs_loop pes (textContent @ the (content tr))
           else text_runs_loop pes textContent))"

definition text_paragraph :: "paragraphT option \<Rightarrow> string \<Rightarrow> string" where
  "text_paragraph p textContent =
     (case p of
        None \<Rightarrow> textContent
      | Some par \<Rightarrow>
          (case elements par of None \<Rightarrow> textContent | Some pes \<Rightarrow> text_runs_loop pes textContent))"

fun text_cell_elements_loop :: "structuralElement list \<Rightarrow> string \<Rightarrow> string" where
  "text_cell_elements_loop [] textContent = textContent"
| "text_cell_elements_loop (cellElement # rest) textContent =
     text_cell_elements_loop rest (text_paragraph (el_paragraph cellElement) textContent)"

fun text_cells_loop :: "tableCell list \<Rightarrow> string \<Rightarrow> string" where
  "text_cells_loop [] textContent = textContent"
| "text_cells_loop (cell # cells) textContent =
     (case cell_content cell of
        None \<Rightarrow> text_cells_loop cells textContent
      | Some els \<Rightarrow> text_cells_loop cells (text_cell_elements_loop els textContent))"

fun text_rows_loop :: "tableRow list \<Rightarrow> string \<Rightarrow> string" where
  "text_rows_loop [] textContent = textContent"
| "text_rows_loop (row # rows) textContent =
     (case tableCells row of
        None \<Rightarrow> text_rows_loop rows textContent
      | Some cells \<Rightarrow> text_rows_loop rows (text_cells_loop cells textContent))"

definition text_table :: "table option \<Rightarrow> string \<Rightarrow> string" where
  "text_table t textContent =
     (case t of
        None \<Rightarrow> textContent
      | Some tbl \<Rightarrow>
          (case tableRows tbl of None \<Rightarrow> textContent | Some rows \<Rightarrow> text_rows_loop rows textContent))"

fun text_elements_loop :: "structuralElement list \<Rightarrow> string \<Rightarrow> string" where
  "text_elements_loop [] textContent = textContent"
| "text_elements_loop (element # rest) textContent =
     text_elements_loop rest
       (text_table (table element) (text_paragraph (el_paragraph element) textContent))"

definition extract_text :: "body option \<Rightarrow> string" where
  "extract_text b =
     (case b of
        None \<Rightarrow> []
      | Some bd \<Rightarrow> (case body_content bd of None \<Rightarrow> [] | Some els \<Rightarrow> text_elements_loop els []))"

section \<open>Errors, requests and the remote service\<close>

text \<open>
  Exceptions are values. \<open>UserError\<close> and \<open>NotImplementedError\<close> carry their
  message; \<open>ValidationError\<close> is the rejection of a call by the parameter schema of a
  tool, with the messages of the failed checks; \<open>OtherError\<close> is any other exception,
  with its \<open>message\<close> and \<open>code\<close> and the \<open>message\<close> and \<open>code\<close> of
  \<open>response.data.error\<close>.
\<close>

datatype error =
    UserError string
  | NotImplementedError string
  | ValidationError "string list"
  | OtherError (err_message: string) (err_code: "int option")
      (err_response_message: "string option") (err_response_code: "int option")

definition error_message :: "error \<Rightarrow> string" where
  "error_message e =
     (case e of
        UserError m \<Rightarrow> m
      | NotImplementedError m \<Rightarrow> m
      | ValidationError ms \<Rightarrow> concat ms
      | OtherError m c rm rc \<Rightarrow> m)"

definition message_or_unknown :: "error \<Rightarrow> string" where
  "message_or_unknown e = (if error_message e = [] then ''Unknown error'' else error_message e)"

definition quoted :: "string \<Rightarrow> string" where
  "quoted s = [CHR 0x22] @ s @ [CHR 0x22]"

record location =
  index :: int
  loc_tabId :: "string option"

record range =
  startIndex :: int
  endIndex :: int
  range_tabId :: "string option"

text \<open>The style intent \<open>TextStyleArgs\<close>, with the nine attributes that
  \<open>formatMatchingText\<close> copies into it.\<close>

record TextStyleArgs =
  ts_bold :: "bool option"
  ts_italic :: "bool option"
  ts_underline :: "bool option"
  ts_strikethrough :: "bool option"
  ts_fontSize :: "int option"
  ts_fontFamily :: "string option"
  ts_foregroundColor :: "string option"
  ts_backgroundColor :: "string option"
  ts_linkUrl :: "string option"

text \<open>The mutation operations the tools build. The paragraph style intent \<open>'p\<close> is
  declared outside this file's sources and stays a type parameter.\<close>

datatype 'p request =
    InsertText location string
  | DeleteContentRange range
  | UpdateTextStyle range TextStyleArgs "string list"
  | UpdateParagraphStyle range 'p "string list"

record get_request =
  get_documentId :: string
  includeTabsContent :: bool
  get_fields :: string

text \<open>
  The target of a style tool is a JSON object; the handlers test which keys it has
  (\<open>'textToFind' in args.target\<close>) and read \<open>startIndex\<close> and \<open>endIndex\<close> from
  it, which are undefined when absent.
\<close>

record target =
  tg_startIndex :: "int option"
  tg_endIndex :: "int option"
  tg_textToFind :: "string option"
  tg_matchInstance :: "int option"
  tg_indexWithinParagraph :: "int option"

text \<open>
  The remote service and the helpers of \<open>googleDocsApiHelpers\<close> that talk to it are
  parameters of the model. \<open>'s\<close> is the state of the remote documents.
  \<open>documents_get\<close>, \<open>findTextRange\<close> and \<open>getParagraphRange\<close> read it;
  \<open>executeBatchUpdate\<close> and the helper \<open>insertText\<close> submit a batch of mutations and
  are the only operations that return a new state. A tool runs after \<open>startServer\<close> has
  initialised the clients, so \<open>getDocsClient\<close> returns the cached client.

  The schemas declared in \<open>types\<close>, which is not among the sources, are parameters too:
  each gives the messages of the checks that fail on a value, none when it is accepted.
  \<open>documentIdParameter\<close> checks a document identifier, \<open>textStyleParameters\<close> and
  \<open>paragraphStyleParameters\<close> a style intent, and \<open>applyTextStyleToolParameters\<close>
  the arguments of \<open>applyTextStyle\<close>: its document identifier, target and style.

  Two operations of the JavaScript runtime on numbers that are not small integers are
  parameters as well: \<open>number_toString\<close>, the text of a number in a template literal,
  and \<open>float_minus\<close>, the rounded difference of two numbers.
\<close>

record ('s, 'p) env =
  documents_get :: "'s \<Rightarrow> get_request \<Rightarrow> error + document"
  executeBatchUpdate :: "string \<Rightarrow> 'p request list \<Rightarrow> 's \<Rightarrow> (error + unit) \<times> 's"
  helper_insertText :: "string \<Rightarrow> string \<Rightarrow> int \<Rightarrow> 's \<Rightarrow> (error + unit) \<times> 's"
  findTextRange :: "'s \<Rightarrow> string \<Rightarrow> string \<Rightarrow> int option \<Rightarrow> error + range option"
  getParagraphRange :: "'s \<Rightarrow> string \<Rightarrow> int \<Rightarrow> error + range option"
  buildUpdateParagraphStyleRequest :: "int \<Rightarrow> int \<Rightarrow> 'p \<Rightarrow> error + ('p request \<times> string list) option"
  json_stringify :: "document + body option \<Rightarrow> string"
  documentIdParameter :: "string \<Rightarrow> string list"
  is_url :: "string \<Rightarrow> bool"
  textStyleParameters :: "TextStyleArgs \<Rightarrow> string list"
  paragraphStyleParameters :: "'p \<Rightarrow> string list"
  applyTextStyleToolParameters :: "string \<Rightarrow> target \<Rightarrow> TextStyleArgs \<Rightarrow> string list"
  number_toString :: "rat \<Rightarrow> string"
  float_minus :: "rat \<Rightarrow> rat \<Rightarrow> rat"

text \<open>
  A JavaScript number is a double; the model takes its exact value, a rational. An integer
  below \<open>2^53\<close> in absolute value is printed with its decimal digits, and a difference
  that is such an integer is computed exactly; everything else is left to the runtime.
  A number is truthy unless it is 0; \<open>substring(0, m)\<close> keeps the first
  \<open>\<lfloor>m\<rfloor>\<close> characters, none when \<open>m\<close> is negative.
\<close>

definition exact_integer :: "rat \<Rightarrow> bool" where
  "exact_integer x = (of_int \<lfloor>x\<rfloor> = x \<and> \<bar>x\<bar> < 2 ^ 53)"

definition number_string :: "('s, 'p) env \<Rightarrow> rat \<Rightarrow> string" where
  "number_string env x = (if exact_integer x then string_of_int \<lfloor>x\<rfloor> else number_toString env x)"

definition number_minus :: "('s, 'p) env \<Rightarrow> rat \<Rightarrow> rat \<Rightarrow> rat" where
  "number_minus env a b = (if exact_integer (a - b) then a - b else float_minus env a b)"

definition truthy_number :: "rat option \<Rightarrow> bool" where
  "truthy_number n = (case n of None \<Rightarrow> False | Some v \<Rightarrow> v \<noteq> 0)"

definition substring0 :: "string \<Rightarrow> rat \<Rightarrow> string" where
  "substring0 s m = take (nat \<lfloor>m\<rfloor>) s"

section \<open>Tab resolution\<close>

text \<open>The identifier of a tab.\<close>

definition tab_id :: "tab \<Rightarrow> string option" where
  "tab_id t = (case tabProperties t of None \<Rightarrow> None | Some tp \<Rightarrow> tabId tp)"

text \<open>
  Modelled from the spec: the search of \<open>findTabById\<close> (\<open>googleDocsApiHelpers\<close>,
  which is not among the sources). The spec: a depth-first search over the tab hierarchy
  (a tab's \<open>childTabs\<close> is a recursive field) that returns the first exact identifier
  match.
\<close>

fun searchTabs :: "tab list \<Rightarrow> string \<Rightarrow> tab option" where
  "searchTabs [] tid = None"
| "searchTabs (Tab props dt None # ts) tid =
     (if (case props of None \<Rightarrow> None | Some tp \<Rightarrow> tabId tp) = Some tid
      then Some (Tab props dt None) else searchTabs ts tid)"
| "searchTabs (Tab props dt (Some cs) # ts) tid =
     (if (case props of None \<Rightarrow> None | Some tp \<Rightarrow> tabId tp) = Some tid
      then Some (Tab props dt (Some cs))
      else (case searchTabs cs tid of Some found \<Rightarrow> Some found | None \<Rightarrow> searchTabs ts tid))"

text \<open>
  Modelled from the spec: \<open>findTabById\<close> of \<open>googleDocsApiHelpers\<close>, which is not
  among the sources. The spec: \<open>resolveTab\<close> with a tab identifier searches the tabs of
  the document depth-first; a legacy document, without tabs, has no match.
\<close>

definition findTabById :: "document \<Rightarrow> string \<Rightarrow> tab option" where
  "findTabById doc tid = (case tabs doc of None \<Rightarrow> None | Some ts \<Rightarrow> searchTabs ts tid)"

text \<open>Every tab of a hierarchy, parents before their children, in document order.\<close>

fun all_tabs :: "tab list \<Rightarrow> tab list" where
  "all_tabs [] = []"
| "all_tabs (Tab props dt None # ts) = Tab props dt None # all_tabs ts"
| "all_tabs (Tab props dt (Some cs) # ts) = Tab props dt (Some cs) # all_tabs cs @ all_tabs ts"

definition document_tabs :: "document \<Rightarrow> tab list" where
  "document_tabs doc = (case tabs doc of None \<Rightarrow> [] | Some ts \<Rightarrow> all_tabs ts)"

text \<open>The lookup every tab-aware tool performs on the fetched document, with its two
  failures.\<close>

definition tab_lookup :: "document \<Rightarrow> string \<Rightarrow> error + documentTab" where
  "tab_lookup doc tid =
     (case findTabById doc tid of
        None \<Rightarrow> Inl (UserError (''Tab with ID '' @ quoted tid @ '' not found in document.''))
      | Some targetTab \<Rightarrow>
          (case documentTab targetTab of
             None \<Rightarrow>
               Inl (UserError (''Tab '' @ quoted tid @ '' does not have content (may not be a document tab).''))
           | Some dt \<Rightarrow> Inr dt))"

section \<open>The catch blocks\<close>

text \<open>Each handler ends in a \<open>catch\<close> that lets a \<open>UserError\<close> through (some also a
  \<open>NotImplementedError\<close>) and wraps any other exception in a \<open>UserError\<close> with a prefix;
  that of \<open>readGoogleDoc\<close> (lines 452 to 465) also maps the codes 404 and 403.\<close>

definition catch_user :: "string \<Rightarrow> error \<Rightarrow> error" where
  "catch_user prefix e =
     (case e of UserError m \<Rightarrow> e | _ \<Rightarrow> UserError (prefix @ message_or_unknown e))"

definition catch_user_notimpl :: "string \<Rightarrow> error \<Rightarrow> error" where
  "catch_user_notimpl prefix e =
     (case e of
        UserError m \<Rightarrow> e
      | NotImplementedError m \<Rightarrow> e
      | _ \<Rightarrow> UserError (prefix @ message_or_unknown e))"

definition error_code :: "error \<Rightarrow> int option" where
  "error_code e = (case e of OtherError m c rm rc \<Rightarrow> c | _ \<Rightarrow> None)"

definition error_response_message :: "error \<Rightarrow> string option" where
  "error_response_message e = (case e of OtherError m c rm rc \<Rightarrow> rm | _ \<Rightarrow> None)"

definition error_response_code :: "error \<Rightarrow> int option" where
  "error_response_code e = (case e of OtherError m c rm rc \<Rightarrow> rc | _ \<Rightarrow> None)"

definition readGoogleDoc_catch :: "string \<Rightarrow> error \<Rightarrow> error" where
  "readGoogleDoc_catch docId e =
     (case e of
        UserError m \<Rightarrow> e
      | NotImplementedError m \<Rightarrow> e
      | _ \<Rightarrow>
          (if error_code e = Some 404 then UserError (''Doc not found (ID: '' @ docId @ '').'')
           else if error_code e = Some 403
             then UserError (''Permission denied for doc (ID: '' @ docId @ '').'')
           else
             (let errorDetails =
                    (if truthy_string (error_response_message e) then the (error_response_message e)
                     else message_or_unknown e);
                  errorCode =
                    (if truthy_int (error_response_code e) then error_response_code e else error_code e)
              in UserError (''Failed to read doc: '' @ errorDetails @
                   (if truthy_int errorCode then '' (Code: '' @ string_of_int (the errorCode) @ '')''
                    else [])))))"

section \<open>readGoogleDoc\<close>

text \<open>The handler of \<open>src/server.ts\<close>, lines 331 to 468.\<close>

datatype format = FormatText | FormatJson | FormatMarkdown

record DocumentIdParameter =
  documentId :: string

record readGoogleDoc_args = DocumentIdParameter +
  rd_format :: format
  rd_maxLength :: "rat option"
  rd_tabId :: "string option"

definition readGoogleDoc_request :: "readGoogleDoc_args \<Rightarrow> get_request" where
  "readGoogleDoc_request args =
     (let needsTabsContent = truthy_string (rd_tabId args);
          flds = (if rd_format args = FormatJson \<or> rd_format args = FormatMarkdown then ''*''
                  else ''body(content(paragraph(elements(textRun(content)))))'')
      in \<lparr>get_documentId = documentId args,
          includeTabsContent = needsTabsContent,
          get_fields = (if needsTabsContent then ''*'' else flds)\<rparr>)"

text \<open>\<open>contentSource\<close> is the fetched document (\<open>Inl\<close>) or \<open>{ body: ... }\<close> built from
  the tab (\<open>Inr\<close>); \<open>contentSource.body\<close> reads either.\<close>

definition contentSource_body :: "document + body option \<Rightarrow> body option" where
  "contentSource_body cs = (case cs of Inl doc \<Rightarrow> doc_body doc | Inr b \<Rightarrow> b)"

definition readGoogleDoc_contentSource ::
  "readGoogleDoc_args \<Rightarrow> document \<Rightarrow> error + (document + body option)" where
  "readGoogleDoc_contentSource args doc =
     (if truthy_string (rd_tabId args) then
        (case tab_lookup doc (the (rd_tabId args)) of
           Inl e \<Rightarrow> Inl e
         | Inr dt \<Rightarrow> Inr (Inr (tab_body dt)))
      else Inr (Inl doc))"

definition markdown_result :: "('s, 'p) env \<Rightarrow> rat option \<Rightarrow> string \<Rightarrow> string" where
  "markdown_result env maxLength markdownContent =
     (let totalLength = int (length markdownContent) in
      if truthy_number maxLength \<and> of_int totalLength > the maxLength then
        substring0 markdownContent (the maxLength) @ [CHR 0x0A, CHR 0x0A] @
        ''... [Markdown truncated to '' @ number_string env (the maxLength) @ '' chars of '' @
        string_of_int totalLength @
        '' total. Use maxLength parameter to adjust limit or remove it to get full content.]''
      else markdownContent)"

definition text_result :: "('s, 'p) env \<Rightarrow> rat option \<Rightarrow> string \<Rightarrow> string" where
  "text_result env maxLength textContent =
     (if trim textContent = [] then ''Document found, but appears empty.''
      else let totalLength = int (length textContent) in
        if truthy_number maxLength \<and> of_int totalLength > the maxLength then
          ''Content (truncated to '' @ number_string env (the maxLength) @ '' chars of '' @
          string_of_int totalLength @ '' total):'' @ [CHR 0x0A] @ ''---'' @ [CHR 0x0A] @
          substring0 textContent (the maxLength) @ [CHR 0x0A, CHR 0x0A] @
          ''... [Document continues for '' @
          number_string env (number_minus env (of_int totalLength) (the maxLength)) @
          '' more characters. Use maxLength parameter to adjust limit or remove it to get full content.]''
        else ''Content ('' @ string_of_int totalLength @ '' characters):'' @ [CHR 0x0A] @ ''---'' @
             [CHR 0x0A] @ textContent)"

definition json_result :: "('s, 'p) env \<Rightarrow> rat option \<Rightarrow> string \<Rightarrow> string" where
  "json_result env maxLength jsonContent =
     (if truthy_number maxLength \<and> of_int (int (length jsonContent)) > the maxLength then
        substring0 jsonContent (the maxLength) @ [CHR 0x0A] @ ''... [JSON truncated: '' @
        string_of_int (int (length jsonContent)) @ '' total chars]''
      else jsonContent)"

definition readGoogleDoc_project ::
  "('s, 'p) env \<Rightarrow> readGoogleDoc_args \<Rightarrow> document + body option \<Rightarrow> error + string" where
  "readGoogleDoc_project env args contentSource =
     (case rd_format args of
        FormatJson \<Rightarrow> Inr (json_result env (rd_maxLength args) (json_stringify env contentSource))
      | FormatMarkdown \<Rightarrow>
          (case convertDocsJsonToMarkdown (contentSource_body contentSource) of
             Inl n \<Rightarrow> Inl (OtherError (''Invalid count value: '' @ string_of_int n) None None None)
           | Inr markdownContent \<Rightarrow> Inr (markdown_result env (rd_maxLength args) markdownContent))
      | FormatText \<Rightarrow>
          Inr (text_result env (rd_maxLength args) (extract_text (contentSource_body contentSource))))"

definition readGoogleDoc_execute ::
  "('s, 'p) env \<Rightarrow> readGoogleDoc_args \<Rightarrow> 's \<Rightarrow> (error + string) \<times> 's" where
  "readGoogleDoc_execute env args s =
     (case documents_get env s (readGoogleDoc_request args) of
        Inl e \<Rightarrow> (Inl (readGoogleDoc_catch (documentId args) e), s)
      | Inr doc \<Rightarrow>
          (case readGoogleDoc_contentSource args doc of
             Inl e \<Rightarrow> (Inl (readGoogleDoc_catch (documentId args) e), s)
           | Inr contentSource \<Rightarrow>
               (case readGoogleDoc_project env args contentSource of
                  Inl e \<Rightarrow> (Inl (readGoogleDoc_catch (documentId args) e), s)
                | Inr result \<Rightarrow> (Inr result, s))))"

section \<open>appendToGoogleDoc\<close>

text \<open>The handler of \<open>src/server.ts\<close>, lines 567 to 637.\<close>

record appendToGoogleDoc_args = DocumentIdParameter +
  ap_textToAppend :: string
  ap_addNewlineIfNeeded :: bool
  ap_tabId :: "string option"

definition appendToGoogleDoc_request :: "appendToGoogleDoc_args \<Rightarrow> get_request" where
  "appendToGoogleDoc_request args =
     (let needsTabsContent = truthy_string (ap_tabId args)
      in \<lparr>get_documentId = documentId args,
          includeTabsContent = needsTabsContent,
          get_fields = (if needsTabsContent then ''tabs''
                        else ''body(content(endIndex)),documentStyle(pageSize)'')\<rparr>)"

definition appendToGoogleDoc_bodyContent ::
  "appendToGoogleDoc_args \<Rightarrow> document \<Rightarrow> error + structuralElement list option" where
  "appendToGoogleDoc_bodyContent args doc =
     (if truthy_string (ap_tabId args) then
        (case tab_lookup doc (the (ap_tabId args)) of
           Inl e \<Rightarrow> Inl e
         | Inr dt \<Rightarrow> Inr (case tab_body dt of None \<Rightarrow> None | Some b \<Rightarrow> body_content b))
      else Inr (case doc_body doc of None \<Rightarrow> None | Some b \<Rightarrow> body_content b))"

text \<open>The insertion index: 1, unless the body has a last element with a truthy
  \<open>endIndex\<close>.\<close>

definition append_endIndex :: "structuralElement list option \<Rightarrow> int" where
  "append_endIndex bodyContent =
     (case bodyContent of
        None \<Rightarrow> 1
      | Some els \<Rightarrow>
          (if els = [] then 1
           else if truthy_int (el_endIndex (last els)) then the (el_endIndex (last els)) - 1
           else 1))"

definition append_location :: "appendToGoogleDoc_args \<Rightarrow> int \<Rightarrow> location" where
  "append_location args i =
     \<lparr>index = i, loc_tabId = (if truthy_string (ap_tabId args) then ap_tabId args else None)\<rparr>"

definition appendToGoogleDoc_execute ::
  "('s, 'p) env \<Rightarrow> appendToGoogleDoc_args \<Rightarrow> 's \<Rightarrow> (error + string) \<times> 's" where
  "appendToGoogleDoc_execute env args s =
     (case documents_get env s (appendToGoogleDoc_request args) of
        Inl e \<Rightarrow> (Inl (catch_user_notimpl ''Failed to append to doc: '' e), s)
      | Inr docInfo \<Rightarrow>
          (case appendToGoogleDoc_bodyContent args docInfo of
             Inl e \<Rightarrow> (Inl (catch_user_notimpl ''Failed to append to doc: '' e), s)
           | Inr bodyContent \<Rightarrow>
               (let endIdx = append_endIndex bodyContent;
                    textToInsert =
                      (if ap_addNewlineIfNeeded args \<and> endIdx > 1 then [CHR 0x0A] else []) @
                      ap_textToAppend args
                in if textToInsert = [] then (Inr ''Nothing to append.'', s)
                   else
                     (case executeBatchUpdate env (documentId args)
                             [InsertText (append_location args endIdx) textToInsert] s of
                        (Inl e, s') \<Rightarrow> (Inl (catch_user_notimpl ''Failed to append to doc: '' e), s')
                      | (Inr u, s') \<Rightarrow>
                          (Inr (''Successfully appended text to '' @
                                (if truthy_string (ap_tabId args)
                                 then ''tab '' @ the (ap_tabId args) @ '' in '' else []) @
                                ''document '' @ documentId args @ ''.''), s')))))"

section \<open>insertText and deleteRange\<close>

text \<open>The handlers of \<open>src/server.ts\<close>, lines 639 to 681 and 683 to 733.\<close>

record insertText_args = DocumentIdParameter +
  it_textToInsert :: string
  it_index :: int
  it_tabId :: "string option"

definition tab_check_request :: "string \<Rightarrow> get_request" where
  "tab_check_request docId =
     \<lparr>get_documentId = docId, includeTabsContent = True,
      get_fields = ''tabs(tabProperties,documentTab)''\<rparr>"

definition insertText_execute ::
  "('s, 'p) env \<Rightarrow> insertText_args \<Rightarrow> 's \<Rightarrow> (error + string) \<times> 's" where
  "insertText_execute env args s =
     (let done = ''Successfully inserted text at index '' @ string_of_int (it_index args) @
                 (if truthy_string (it_tabId args) then '' in tab '' @ the (it_tabId args) else []) @
                 ''.''
      in if truthy_string (it_tabId args) then
           (case documents_get env s (tab_check_request (documentId args)) of
              Inl e \<Rightarrow> (Inl (catch_user ''Failed to insert text: '' e), s)
            | Inr docInfo \<Rightarrow>
                (case tab_lookup docInfo (the (it_tabId args)) of
                   Inl e \<Rightarrow> (Inl (catch_user ''Failed to insert text: '' e), s)
                 | Inr dt \<Rightarrow>
                     (case executeBatchUpdate env (documentId args)
                             [InsertText \<lparr>index = it_index args, loc_tabId = it_tabId args\<rparr>
                                (it_textToInsert args)] s of
                        (Inl e, s') \<Rightarrow> (Inl (catch_user ''Failed to insert text: '' e), s')
                      | (Inr u, s') \<Rightarrow> (Inr done, s'))))
         else
           (case helper_insertText env (documentId args) (it_textToInsert args) (it_index args) s of
              (Inl e, s') \<Rightarrow> (Inl (catch_user ''Failed to insert text: '' e), s')
            | (Inr u, s') \<Rightarrow> (Inr done, s')))"

record deleteRange_args = DocumentIdParameter +
  dr_startIndex :: int
  dr_endIndex :: int
  dr_tabId :: "string option"

text \<open>The parameter schema of \<open>deleteRange\<close>: the checks of \<open>DocumentIdParameter\<close>
  (declared elsewhere, a parameter), the two \<open>min(1)\<close> bounds and the refinement.\<close>

definition deleteRange_issues :: "('s, 'p) env \<Rightarrow> deleteRange_args \<Rightarrow> string list" where
  "deleteRange_issues env args =
     documentIdParameter env (documentId args) @
     (if dr_startIndex args < 1 then [''Number must be greater than or equal to 1''] else []) @
     (if dr_endIndex args < 1 then [''Number must be greater than or equal to 1''] else []) @
     (if dr_endIndex args > dr_startIndex args then []
      else [''endIndex must be greater than startIndex''])"

definition deleteRange_execute ::
  "('s, 'p) env \<Rightarrow> deleteRange_args \<Rightarrow> 's \<Rightarrow> (error + string) \<times> 's" where
  "deleteRange_execute env args s =
     (if dr_endIndex args \<le> dr_startIndex args then
        (Inl (UserError ''End index must be greater than start index for deletion.''), s)
      else
        (case (if truthy_string (dr_tabId args) then
                 (case documents_get env s (tab_check_request (documentId args)) of
                    Inl e \<Rightarrow> Inl e
                  | Inr docInfo \<Rightarrow>
                      (case tab_lookup docInfo (the (dr_tabId args)) of
                         Inl e \<Rightarrow> Inl e
                       | Inr dt \<Rightarrow> Inr ()))
               else Inr ()) of
           Inl e \<Rightarrow> (Inl (catch_user ''Failed to delete range: '' e), s)
         | Inr u \<Rightarrow>
             (case executeBatchUpdate env (documentId args)
                     [DeleteContentRange
                        \<lparr>startIndex = dr_startIndex args, endIndex = dr_endIndex args,
                         range_tabId = (if truthy_string (dr_tabId args) then dr_tabId args else None)\<rparr>]
                     s of
                (Inl e, s') \<Rightarrow> (Inl (catch_user ''Failed to delete range: '' e), s')
              | (Inr u', s') \<Rightarrow>
                  (Inr (''Successfully deleted content in range '' @
                        string_of_int (dr_startIndex args) @ ''-'' @ string_of_int (dr_endIndex args) @
                        (if truthy_string (dr_tabId args) then '' in tab '' @ the (dr_tabId args)
                         else []) @ ''.''), s'))))"

text \<open>A tool call: the framework checks the arguments against the schema and runs the
  handler only when no check failed.\<close>

definition deleteRange_tool ::
  "('s, 'p) env \<Rightarrow> deleteRange_args \<Rightarrow> 's \<Rightarrow> (error + string) \<times> 's" where
  "deleteRange_tool env args s =
     (if deleteRange_issues env args \<noteq> [] then (Inl (ValidationError (deleteRange_issues env args)), s)
      else deleteRange_execute env args s)"

section \<open>applyTextStyle and applyParagraphStyle\<close>

text \<open>The handlers of \<open>src/server.ts\<close>, lines 737 to 783 and 785 to 889.\<close>

record applyTextStyle_args = DocumentIdParameter +
  ats_target :: target
  ats_style :: TextStyleArgs

text \<open>
  Modelled from the spec: the fields mask of \<open>buildUpdateTextStyleRequest\<close>
  (\<open>googleDocsApiHelpers\<close>, which is not among the sources). The spec: the mask lists
  only the attributes present in the intent.
\<close>

definition present :: "'a option \<Rightarrow> string \<Rightarrow> string list" where
  "present v name = (case v of None \<Rightarrow> [] | Some x \<Rightarrow> [name])"

definition style_fields :: "TextStyleArgs \<Rightarrow> string list" where
  "style_fields style =
     present (ts_bold style) ''bold'' @ present (ts_italic style) ''italic'' @
     present (ts_underline style) ''underline'' @
     present (ts_strikethrough style) ''strikethrough'' @
     present (ts_fontSize style) ''fontSize'' @ present (ts_fontFamily style) ''fontFamily'' @
     present (ts_foregroundColor style) ''foregroundColor'' @
     present (ts_backgroundColor style) ''backgroundColor'' @
     present (ts_linkUrl style) ''linkUrl''"

text \<open>
  Modelled from the spec: \<open>buildUpdateTextStyleRequest\<close> of \<open>googleDocsApiHelpers\<close>,
  which is not among the sources. The spec: it produces exactly one mutation operation
  whose fields mask lists only the attributes present in the intent, and returns nothing
  if the intent has no attribute set.
\<close>

definition buildUpdateTextStyleRequest ::
  "int \<Rightarrow> int \<Rightarrow> TextStyleArgs \<Rightarrow> ('p request \<times> string list) option" where
  "buildUpdateTextStyleRequest startIdx endIdx style =
     (if style_fields style = [] then None
      else Some (UpdateTextStyle \<lparr>startIndex = startIdx, endIndex = endIdx, range_tabId = None\<rparr>
                   style (style_fields style),
                 style_fields style))"

fun join :: "string \<Rightarrow> string list \<Rightarrow> string" where
  "join sep [] = []"
| "join sep [x] = x"
| "join sep (x # y # ys) = x @ sep @ join sep (y # ys)"

definition show_instance :: "int option \<Rightarrow> string" where
  "show_instance i = (case i of None \<Rightarrow> ''undefined'' | Some n \<Rightarrow> string_of_int n)"

text \<open>The first step of \<open>applyTextStyle\<close>: the range to style, from the target itself
  or from \<open>findTextRange\<close>.\<close>

definition applyTextStyle_resolve ::
  "('s, 'p) env \<Rightarrow> applyTextStyle_args \<Rightarrow> 's \<Rightarrow> error + (int option \<times> int option)" where
  "applyTextStyle_resolve env args s =
     (let tg = ats_target args in
      case tg_textToFind tg of
        Some textToFind \<Rightarrow>
          (case findTextRange env s (documentId args) textToFind (tg_matchInstance tg) of
             Inl e \<Rightarrow> Inl e
           | Inr None \<Rightarrow>
               Inl (UserError (''Could not find instance '' @ show_instance (tg_matchInstance tg) @
                               '' of text '' @ quoted textToFind @ ''.''))
           | Inr (Some r) \<Rightarrow> Inr (Some (startIndex r), Some (endIndex r)))
      | None \<Rightarrow> Inr (tg_startIndex tg, tg_endIndex tg))"

definition applyTextStyle_execute ::
  "('s, 'p) env \<Rightarrow> applyTextStyle_args \<Rightarrow> 's \<Rightarrow> (error + string) \<times> 's" where
  "applyTextStyle_execute env args s =
     (case applyTextStyle_resolve env args s of
        Inl e \<Rightarrow> (Inl (catch_user_notimpl ''Failed to apply text style: '' e), s)
      | Inr (startIdx, endIdx) \<Rightarrow>
          (if startIdx = None \<or> endIdx = None then
             (Inl (UserError ''Target range could not be determined.''), s)
           else if the endIdx \<le> the startIdx then
             (Inl (UserError ''End index must be greater than start index for styling.''), s)
           else
             (case buildUpdateTextStyleRequest (the startIdx) (the endIdx) (ats_style args) of
                None \<Rightarrow> (Inr ''No valid text styling options were provided.'', s)
              | Some (request, flds) \<Rightarrow>
                  (case executeBatchUpdate env (documentId args) [request] s of
                     (Inl e, s') \<Rightarrow> (Inl (catch_user_notimpl ''Failed to apply text style: '' e), s')
                   | (Inr u, s') \<Rightarrow>
                       (Inr (''Successfully applied text style ('' @ join '', '' flds @
                             '') to range '' @ string_of_int (the startIdx) @ ''-'' @
                             string_of_int (the endIdx) @ ''.''), s')))))"

text \<open>The tool: the schema \<open>ApplyTextStyleToolParameters\<close>, a parameter of the model,
  then the handler.\<close>

definition applyTextStyle_issues :: "('s, 'p) env \<Rightarrow> applyTextStyle_args \<Rightarrow> string list" where
  "applyTextStyle_issues env args =
     applyTextStyleToolParameters env (documentId args) (ats_target args) (ats_style args)"

definition applyTextStyle_tool ::
  "('s, 'p) env \<Rightarrow> applyTextStyle_args \<Rightarrow> 's \<Rightarrow> (error + string) \<times> 's" where
  "applyTextStyle_tool env args s =
     (if applyTextStyle_issues env args \<noteq> []
      then (Inl (ValidationError (applyTextStyle_issues env args)), s)
      else applyTextStyle_execute env args s)"

record 'p applyParagraphStyle_args = DocumentIdParameter +
  aps_target :: target
  aps_style :: 'p

definition applyParagraphStyle_resolve ::
  "('s, 'p) env \<Rightarrow> 'p applyParagraphStyle_args \<Rightarrow> 's \<Rightarrow> error + (int option \<times> int option)" where
  "applyParagraphStyle_resolve env args s =
     (let tg = aps_target args in
      case tg_textToFind tg of
        Some textToFind \<Rightarrow>
          (case findTextRange env s (documentId args) textToFind
                  (Some (if truthy_int (tg_matchInstance tg) then the (tg_matchInstance tg) else 1)) of
             Inl e \<Rightarrow> Inl e
           | Inr None \<Rightarrow>
               Inl (UserError (''Could not find '' @ quoted textToFind @ '' in the document.''))
           | Inr (Some textRange) \<Rightarrow>
               (case getParagraphRange env s (documentId args) (startIndex textRange) of
                  Inl e \<Rightarrow> Inl e
                | Inr None \<Rightarrow>
                    Inl (UserError ''Found the text but could not determine the paragraph boundaries.'')
                | Inr (Some paragraphRange) \<Rightarrow>
                    Inr (Some (startIndex paragraphRange), Some (endIndex paragraphRange))))
      | None \<Rightarrow>
          (case tg_indexWithinParagraph tg of
             Some i \<Rightarrow>
               (case getParagraphRange env s (documentId args) i of
                  Inl e \<Rightarrow> Inl e
                | Inr None \<Rightarrow>
                    Inl (UserError (''Could not find paragraph containing index '' @ string_of_int i @ ''.''))
                | Inr (Some paragraphRange) \<Rightarrow>
                    Inr (Some (startIndex paragraphRange), Some (endIndex paragraphRange)))
           | None \<Rightarrow>
               (if tg_startIndex tg \<noteq> None \<and> tg_endIndex tg \<noteq> None
                then Inr (tg_startIndex tg, tg_endIndex tg)
                else Inr (None, None))))"

definition applyParagraphStyle_execute ::
  "('s, 'p) env \<Rightarrow> 'p applyParagraphStyle_args \<Rightarrow> 's \<Rightarrow> (error + string) \<times> 's" where
  "applyParagraphStyle_execute env args s =
     (case applyParagraphStyle_resolve env args s of
        Inl e \<Rightarrow> (Inl (catch_user_notimpl ''Failed to apply paragraph style: '' e), s)
      | Inr (startIdx, endIdx) \<Rightarrow>
          (if startIdx = None \<or> endIdx = None then
             (Inl (UserError ''Could not determine target paragraph range from the provided information.''), s)
           else if the endIdx \<le> the startIdx then
             (Inl (UserError (''Invalid paragraph range: end index ('' @ string_of_int (the endIdx) @
                              '') must be greater than start index ('' @
                              string_of_int (the startIdx) @ '').'')), s)
           else
             (case buildUpdateParagraphStyleRequest env (the startIdx) (the endIdx) (aps_style args) of
                Inl e \<Rightarrow> (Inl (catch_user_notimpl ''Failed to apply paragraph style: '' e), s)
              | Inr None \<Rightarrow> (Inr ''No valid paragraph styling options were provided.'', s)
              | Inr (Some (request, flds)) \<Rightarrow>
                  (case executeBatchUpdate env (documentId args) [request] s of
                     (Inl e, s') \<Rightarrow>
                       (Inl (catch_user_notimpl ''Failed to apply paragraph style: '' e), s')
                   | (Inr u, s') \<Rightarrow>
                       (Inr (''Successfully applied paragraph styles ('' @ join '', '' flds @
                             '') to the paragraph.''), s')))))"

section \<open>The stubs: editTableCell and findElement\<close>

text \<open>The handlers of \<open>src/server.ts\<close>, lines 916 to 947 and 1397 to 1410.\<close>

record 'p editTableCell_args = DocumentIdParameter +
  tableStartIndex :: rat
  rowIndex :: rat
  columnIndex :: rat
  textContent :: "string option"
  etc_textStyle :: "TextStyleArgs option"
  etc_paragraphStyle :: "'p option"

definition editTableCell_execute ::
  "('s, 'p) env \<Rightarrow> 'p editTableCell_args \<Rightarrow> 's \<Rightarrow> (error + string) \<times> 's" where
  "editTableCell_execute env args s =
     (Inl (NotImplementedError ''Editing table cells is complex and not yet implemented.''), s)"

text \<open>
  The parameter schema of \<open>editTableCell\<close> (lines 919 to 928): the checks of
  \<open>DocumentIdParameter\<close>, the lower bounds of the three indices, and the checks of
  \<open>TextStyleParameters\<close> and \<open>ParagraphStyleParameters\<close> on a style that is given. The
  indices are the numbers the caller sends; \<open>.int()\<close> refuses one that is no integer.
\<close>

definition integer_issue :: "rat \<Rightarrow> string list" where
  "integer_issue x = (if of_int \<lfloor>x\<rfloor> = x then [] else [''Expected integer, received float''])"

definition editTableCell_issues :: "('s, 'p) env \<Rightarrow> 'p editTableCell_args \<Rightarrow> string list" where
  "editTableCell_issues env args =
     documentIdParameter env (documentId args) @
     integer_issue (tableStartIndex args) @
     (if tableStartIndex args < 1 then [''Number must be greater than or equal to 1''] else []) @
     integer_issue (rowIndex args) @
     (if rowIndex args < 0 then [''Number must be greater than or equal to 0''] else []) @
     integer_issue (columnIndex args) @
     (if columnIndex args < 0 then [''Number must be greater than or equal to 0''] else []) @
     (case etc_textStyle args of None \<Rightarrow> [] | Some st \<Rightarrow> textStyleParameters env st) @
     (case etc_paragraphStyle args of None \<Rightarrow> [] | Some st \<Rightarrow> paragraphStyleParameters env st)"

definition editTableCell_tool ::
  "('s, 'p) env \<Rightarrow> 'p editTableCell_args \<Rightarrow> 's \<Rightarrow> (error + string) \<times> 's" where
  "editTableCell_tool env args s =
     (if editTableCell_issues env args \<noteq> []
      then (Inl (ValidationError (editTableCell_issues env args)), s)
      else editTableCell_execute env args s)"

datatype elementType = ElementParagraph | ElementTable | ElementList | ElementImage

record findElement_args = DocumentIdParameter +
  textQuery :: "string option"
  fe_elementType :: "elementType option"

definition findElement_execute ::
  "('s, 'p) env \<Rightarrow> findElement_args \<Rightarrow> 's \<Rightarrow> (error + string) \<times> 's" where
  "findElement_execute env args s =
     (Inl (NotImplementedError ''Finding elements by complex criteria is not yet implemented.''), s)"

text \<open>The parameter schema of \<open>findElement\<close> (lines 1400 to 1405): the checks of
  \<open>DocumentIdParameter\<close>; the two other parameters are optional and unconstrained.\<close>

definition findElement_issues :: "('s, 'p) env \<Rightarrow> findElement_args \<Rightarrow> string list" where
  "findElement_issues env args = documentIdParameter env (documentId args)"

definition findElement_tool ::
  "('s, 'p) env \<Rightarrow> findElement_args \<Rightarrow> 's \<Rightarrow> (error + string) \<times> 's" where
  "findElement_tool env args s =
     (if findElement_issues env args \<noteq> []
      then (Inl (ValidationError (findElement_issues env args)), s)
      else findElement_execute env args s)"

section \<open>formatMatchingText\<close>

text \<open>The schema and the handler of \<open>src/server.ts\<close>, lines 1413 to 1482.\<close>

text \<open>
  The colour check is the regular expression
  \<^verbatim>\<open>/^#?([0-9A-Fa-f]{3}|[0-9A-Fa-f]{6})$/\<close>. Regular expressions are a datatype; the
  matcher returns, for a string, what is left of it after every way of matching a prefix,
  in the order a backtracking matcher tries them. \<open>test\<close> for an expression between
  \<open>^\<close> and \<open>$\<close> holds when some way leaves nothing.
\<close>

datatype regex =
    Lit char
  | CharClass "(nat \<times> nat) list"
  | Seq regex regex
  | Alt regex regex
  | Opt regex
  | Rep nat regex

definition in_class :: "(nat \<times> nat) list \<Rightarrow> char \<Rightarrow> bool" where
  "in_class ranges c = list_ex (\<lambda>(lo, hi). lo \<le> char_code c \<and> char_code c \<le> hi) ranges"

fun rep_match :: "(string \<Rightarrow> string list) \<Rightarrow> nat \<Rightarrow> string \<Rightarrow> string list" where
  "rep_match m 0 s = [s]"
| "rep_match m (Suc n) s = concat (map (rep_match m n) (m s))"

fun re_match :: "regex \<Rightarrow> string \<Rightarrow> string list" where
  "re_match (Lit c) s = (case s of [] \<Rightarrow> [] | x # xs \<Rightarrow> if x = c then [xs] else [])"
| "re_match (CharClass ranges) s =
     (case s of [] \<Rightarrow> [] | x # xs \<Rightarrow> if in_class ranges x then [xs] else [])"
| "re_match (Seq a b) s = concat (map (re_match b) (re_match a s))"
| "re_match (Alt a b) s = re_match a s @ re_match b s"
| "re_match (Opt a) s = re_match a s @ [s]"
| "re_match (Rep n a) s = rep_match (re_match a) n s"

definition regex_test :: "regex \<Rightarrow> string \<Rightarrow> bool" where
  "regex_test r s = ([] \<in> set (re_match r s))"

definition hex_class :: regex where
  "hex_class = CharClass [(48, 57), (65, 70), (97, 102)]"

definition color_regex :: regex where
  "color_regex = Seq (Opt (Lit (CHR ''#''))) (Alt (Rep 3 hex_class) (Rep 6 hex_class))"

definition color_ok :: "string \<Rightarrow> bool" where
  "color_ok color = regex_test color_regex color"

text \<open>The arguments of a \<open>formatMatchingText\<close> call as the caller sends them.\<close>

record formatMatchingText_args = DocumentIdParameter +
  fm_textToFind :: string
  fm_matchInstance :: "int option"
  fm_bold :: "bool option"
  fm_italic :: "bool option"
  fm_underline :: "bool option"
  fm_strikethrough :: "bool option"
  fm_fontSize :: "int option"
  fm_fontFamily :: "string option"
  fm_foregroundColor :: "string option"
  fm_backgroundColor :: "string option"
  fm_linkUrl :: "string option"

definition color_issues :: "string \<Rightarrow> string option \<Rightarrow> string list" where
  "color_issues msg color =
     (case color of None \<Rightarrow> [] | Some c \<Rightarrow> if color_ok c then [] else [msg])"

text \<open>The refinement of the whole object: some key other than \<open>documentId\<close>,
  \<open>textToFind\<close> and \<open>matchInstance\<close> has a value.\<close>

definition has_formatting_option :: "formatMatchingText_args \<Rightarrow> bool" where
  "has_formatting_option data =
     (fm_bold data \<noteq> None \<or> fm_italic data \<noteq> None \<or> fm_underline data \<noteq> None \<or>
      fm_strikethrough data \<noteq> None \<or> fm_fontSize data \<noteq> None \<or> fm_fontFamily data \<noteq> None \<or>
      fm_foregroundColor data \<noteq> None \<or> fm_backgroundColor data \<noteq> None \<or>
      fm_linkUrl data \<noteq> None)"

definition formatMatchingText_issues :: "('s, 'p) env \<Rightarrow> formatMatchingText_args \<Rightarrow> string list" where
  "formatMatchingText_issues env raw =
     (if fm_textToFind raw = [] then [''String must contain at least 1 character(s)''] else []) @
     (case fm_matchInstance raw of
        None \<Rightarrow> []
      | Some n \<Rightarrow> if n < 1 then [''Number must be greater than or equal to 1''] else []) @
     (case fm_fontSize raw of
        None \<Rightarrow> []
      | Some n \<Rightarrow> if n < 1 then [''Number must be greater than or equal to 1''] else []) @
     color_issues ''Invalid hex color format (e.g., #FF0000 or #F00)'' (fm_foregroundColor raw) @
     color_issues ''Invalid hex color format (e.g., #00FF00 or #0F0)'' (fm_backgroundColor raw) @
     (case fm_linkUrl raw of
        None \<Rightarrow> []
      | Some u \<Rightarrow> if is_url env u then [] else [''Invalid url'']) @
     (if has_formatting_option raw then []
      else [''At least one formatting option (bold, italic, fontSize, etc.) must be provided.''])"

definition styleParams :: "formatMatchingText_args \<Rightarrow> TextStyleArgs" where
  "styleParams args =
     \<lparr>ts_bold = fm_bold args, ts_italic = fm_italic args, ts_underline = fm_underline args,
      ts_strikethrough = fm_strikethrough args, ts_fontSize = fm_fontSize args,
      ts_fontFamily = fm_fontFamily args, ts_foregroundColor = fm_foregroundColor args,
      ts_backgroundColor = fm_backgroundColor args, ts_linkUrl = fm_linkUrl args\<rparr>"

text \<open>The handler; \<open>matchInstance\<close> has its default 1 when the caller left it out.\<close>

definition matchInstance :: "formatMatchingText_args \<Rightarrow> int" where
  "matchInstance args = (case fm_matchInstance args of None \<Rightarrow> 1 | Some n \<Rightarrow> n)"

definition formatMatchingText_execute ::
  "('s, 'p) env \<Rightarrow> formatMatchingText_args \<Rightarrow> 's \<Rightarrow> (error + string) \<times> 's" where
  "formatMatchingText_execute env args s =
     (case findTextRange env s (documentId args) (fm_textToFind args) (Some (matchInstance args)) of
        Inl e \<Rightarrow> (Inl (catch_user ''Failed to format text: '' e), s)
      | Inr None \<Rightarrow>
          (Inl (UserError (''Could not find instance '' @ string_of_int (matchInstance args) @
                           '' of text '' @ quoted (fm_textToFind args) @ ''.'')), s)
      | Inr (Some r) \<Rightarrow>
          (case buildUpdateTextStyleRequest (startIndex r) (endIndex r) (styleParams args) of
             None \<Rightarrow> (Inr ''No valid text styling options were provided.'', s)
           | Some (request, flds) \<Rightarrow>
               (case executeBatchUpdate env (documentId args) [request] s of
                  (Inl e, s') \<Rightarrow> (Inl (catch_user ''Failed to format text: '' e), s')
                | (Inr u, s') \<Rightarrow>
                    (Inr (''Successfully applied formatting to instance '' @
                          string_of_int (matchInstance args) @ '' of '' @
                          quoted (fm_textToFind args) @ ''.''), s'))))"

definition formatMatchingText_tool ::
  "('s, 'p) env \<Rightarrow> formatMatchingText_args \<Rightarrow> 's \<Rightarrow> (error + string) \<times> 's" where
  "formatMatchingText_tool env raw s =
     (if formatMatchingText_issues env raw \<noteq> []
      then (Inl (ValidationError (formatMatchingText_issues env raw)), s)
      else formatMatchingText_execute env raw s)"

section \<open>A test service\<close>

text \<open>
  A concrete service for running the tools: its state is the list of the batches submitted
  so far, every document is \<open>doc\<close>, a batch always succeeds, the text and paragraph
  lookups return the ranges given, the schemas declared elsewhere accept everything, a
  number that is no small integer is printed with one decimal digit, and differences are
  exact.
\<close>

definition test_env ::
  "document \<Rightarrow> range option \<Rightarrow> range option \<Rightarrow> ((string \<times> unit request list) list, unit) env" where
  "test_env doc found para =
     \<lparr>documents_get = (\<lambda>s r. Inr doc),
      executeBatchUpdate = (\<lambda>docId requests s. (Inr (), s @ [(docId, requests)])),
      helper_insertText =
        (\<lambda>docId text i s.
           (Inr (), s @ [(docId, [InsertText \<lparr>index = i, loc_tabId = None\<rparr> text])])),
      findTextRange = (\<lambda>s docId text inst. Inr found),
      getParagraphRange = (\<lambda>s docId i. Inr para),
      buildUpdateParagraphStyleRequest =
        (\<lambda>a b style.
           Inr (Some (UpdateParagraphStyle \<lparr>startIndex = a, endIndex = b, range_tabId = None\<rparr>
                        style [''alignment''], [''alignment'']))),
      json_stringify = (\<lambda>cs. ''{}''),
      documentIdParameter = (\<lambda>docId. []),
      is_url = (\<lambda>u. take 4 u = ''http''),
      textStyleParameters = (\<lambda>st. []),
      paragraphStyleParameters = (\<lambda>st. []),
      applyTextStyleToolParameters = (\<lambda>docId tg st. []),
      number_toString =
        (\<lambda>x. (if x < 0 then ''-'' else []) @ string_of_nat (nat \<lfloor>\<bar>x\<bar>\<rfloor>) @ ''.'' @
              string_of_nat (nat \<lfloor>(\<bar>x\<bar> - of_int \<lfloor>\<bar>x\<bar>\<rfloor>) * 10\<rfloor>)),
      float_minus = (\<lambda>a b. a - b)\<rparr>"

section \<open>The text runs of a document, in document order\<close>

text \<open>
  The runs a reader meets in a list of elements: those of a paragraph, and for a table
  those of the paragraphs of each cell, row after row and cell after cell.
\<close>

definition runs_of_paragraph :: "paragraphT option \<Rightarrow> textRun list" where
  "runs_of_paragraph p =
     (case p of
        None \<Rightarrow> []
      | Some par \<Rightarrow> (case elements par of None \<Rightarrow> [] | Some pes \<Rightarrow> List.map_filter textRun pes))"

definition runs_of_cell :: "tableCell \<Rightarrow> textRun list" where
  "runs_of_cell cell =
     (case cell_content cell of
        None \<Rightarrow> []
      | Some els \<Rightarrow> concat (map (\<lambda>el. runs_of_paragraph (el_paragraph el)) els))"

definition runs_of_row :: "tableRow \<Rightarrow> textRun list" where
  "runs_of_row row =
     (case tableCells row of None \<Rightarrow> [] | Some cells \<Rightarrow> concat (map runs_of_cell cells))"

definition runs_of_table :: "table option \<Rightarrow> textRun list" where
  "runs_of_table t =
     (case t of
        None \<Rightarrow> []
      | Some tbl \<Rightarrow> (case tableRows tbl of None \<Rightarrow> [] | Some rows \<Rightarrow> concat (map runs_of_row rows)))"

definition all_text_runs :: "structuralElement list \<Rightarrow> textRun list" where
  "all_text_runs els =
     concat (map (\<lambda>el. runs_of_paragraph (el_paragraph el) @ runs_of_table (table el)) els)"

definition run_text :: "textRun \<Rightarrow> string" where
  "run_text tr = (case content tr of None \<Rightarrow> [] | Some c \<Rightarrow> c)"

section \<open>Sample documents\<close>

definition styled_run :: "string \<Rightarrow> textStyle option \<Rightarrow> paragraphElement" where
  "styled_run s st = \<lparr>textRun = Some \<lparr>content = Some s, textStyle = st\<rparr>\<rparr>"

definition sample_paragraph :: "string option \<Rightarrow> bool \<Rightarrow> paragraphElement list \<Rightarrow> paragraphT" where
  "sample_paragraph style bulleted pes =
     \<lparr>elements = Some pes,
      paragraphStyle = Some \<lparr>namedStyleType = style\<rparr>,
      bullet = (if bulleted then Some \<lparr>listId = Some ''kix.list1''\<rparr> else None)\<rparr>"

definition paragraph_element :: "int \<Rightarrow> paragraphT \<Rightarrow> structuralElement" where
  "paragraph_element e p = StructuralElement (Some e) (Some p) None None"

definition text_cell :: "string \<Rightarrow> tableCell" where
  "text_cell s =
     TableCell (Some [paragraph_element 0 (sample_paragraph (Some ''NORMAL_TEXT'') False [styled_run s None])])"

definition sample_style :: "bool \<Rightarrow> bool \<Rightarrow> textStyle" where
  "sample_style b i =
     \<lparr>bold = Some b, italic = Some i, underline = None, strikethrough = None, link = None\<rparr>"

definition legacy_document :: "structuralElement list \<Rightarrow> document" where
  "legacy_document els = \<lparr>doc_body = Some \<lparr>body_content = Some els\<rparr>, tabs = None\<rparr>"

definition sample_tab :: "string \<Rightarrow> structuralElement list option \<Rightarrow> tab list \<Rightarrow> tab" where
  "sample_tab tid els children =
     Tab (Some \<lparr>tabId = Some tid, title = Some ''Tab''\<rparr>)
         (case els of None \<Rightarrow> None | Some es \<Rightarrow> Some \<lparr>tab_body = Some \<lparr>body_content = Some es\<rparr>\<rparr>)
         (if children = [] then None else Some children)"

definition tabbed_document :: "tab list \<Rightarrow> document" where
  "tabbed_document ts = \<lparr>doc_body = None, tabs = Some ts\<rparr>"

text \<open>The style intent \<open>{}\<close>, with no attribute set.\<close>

definition empty_style :: TextStyleArgs where
  "empty_style =
     \<lparr>ts_bold = None, ts_italic = None, ts_underline = None, ts_strikethrough = None,
      ts_fontSize = None, ts_fontFamily = None, ts_foregroundColor = None,
      ts_backgroundColor = None, ts_linkUrl = None\<rparr>"

text \<open>A \<open>formatMatchingText\<close> call that sets no formatting option.\<close>

definition no_options :: formatMatchingText_args where
  "no_options =
     \<lparr>documentId = ''d'', fm_textToFind = ''x'', fm_matchInstance = None, fm_bold = None,
      fm_italic = None, fm_underline = None, fm_strikethrough = None, fm_fontSize = None,
      fm_fontFamily = None, fm_foregroundColor = None, fm_backgroundColor = None,
      fm_linkUrl = None\<rparr>"

text \<open>A hexadecimal digit, as the claims use the word.\<close>

definition is_hex_digit :: "char \<Rightarrow> bool" where
  "is_hex_digit c = (c \<in> set ''0123456789abcdefABCDEF'')"

text \<open>A \<open>formatMatchingText\<close> call with a four-digit colour.\<close>

definition bad_color_call :: formatMatchingText_args where
  "bad_color_call = no_options\<lparr>fm_bold := Some True, fm_foregroundColor := Some ''#FFFF''\<rparr>"

text \<open>
  The table projection in the words of claim C6: one line for every row, the separator
  after the line of the first row, with one \<open>---\<close> for each of its cells. A row
  without \<open>tableCells\<close> has no cell.
\<close>

definition row_cells :: "tableRow \<Rightarrow> tableCell list" where
  "row_cells r = (case tableCells r of None \<Rightarrow> [] | Some cells \<Rightarrow> cells)"

definition claimed_table_markdown :: "tableRow list \<Rightarrow> string" where
  "claimed_table_markdown rows =
     (case rows of
        [] \<Rightarrow> []
      | r # rest \<Rightarrow>
          [CHR 0x0A] @ rowText (row_cells r) @ [CHR 0x0A] @
          separator (length (row_cells r)) @ [CHR 0x0A] @
          concat (map (\<lambda>r'. rowText (row_cells r') @ [CHR 0x0A]) rest) @ [CHR 0x0A])"

text \<open>A table whose first row has no \<open>tableCells\<close>.\<close>

definition skipped_row_table :: table where
  "skipped_row_table = Table (Some [TableRow None, TableRow (Some [text_cell ''a''])])"

text \<open>A decimal digit.\<close>

definition dec_digit :: "char \<Rightarrow> bool" where
  "dec_digit c = (48 \<le> char_code c \<and> char_code c \<le> 57)"

text \<open>The named style of a paragraph, and the markup of a run in the words of claim C7:
  the emphasis marker, the underline tags, the strikethrough marker and the link.\<close>

definition namedStyle :: "paragraphT \<Rightarrow> string option" where
  "namedStyle p = (case paragraphStyle p of None \<Rightarrow> None | Some ps \<Rightarrow> namedStyleType ps)"

definition emphasis_marker :: "textStyle \<Rightarrow> string" where
  "emphasis_marker st =
     (if bold st = Some True \<and> italic st = Some True then ''***''
      else if bold st = Some True then ''**''
      else if italic st = Some True then ''*''
      else [])"

definition underline_wrap :: "textStyle \<Rightarrow> string \<Rightarrow> string" where
  "underline_wrap st x =
     (if underline st = Some True \<and> link st = None then ''<u>'' @ x @ ''</u>'' else x)"

definition strike_marker :: "textStyle \<Rightarrow> string" where
  "strike_marker st = (if strikethrough st = Some True then ''~~'' else [])"

definition link_url :: "textStyle \<Rightarrow> string option" where
  "link_url st =
     (case link st of
        None \<Rightarrow> None
      | Some l \<Rightarrow> (case url l of None \<Rightarrow> None | Some u \<Rightarrow> if u = [] then None else Some u))"

definition link_wrap :: "textStyle \<Rightarrow> string \<Rightarrow> string" where
  "link_wrap st x =
     (case link_url st of None \<Rightarrow> x | Some u \<Rightarrow> ''['' @ x @ '']('' @ u @ '')'')"

text \<open>Sample paragraphs and a sample style.\<close>

definition heading3 :: paragraphT where
  "heading3 = sample_paragraph (Some ''HEADING_3'') False [styled_run ''Intro'' (Some (sample_style True False))]"

definition bullet_item :: paragraphT where
  "bullet_item = sample_paragraph (Some ''NORMAL_TEXT'') True [styled_run ''Item '' None]"

definition blank_heading :: paragraphT where
  "blank_heading = sample_paragraph (Some ''HEADING_1'') False [styled_run [CHR 0x0A] None]"

definition bulleted_heading :: paragraphT where
  "bulleted_heading = sample_paragraph (Some ''HEADING_2'') True [styled_run ''Item'' None]"

definition struck_link_style :: textStyle where
  "struck_link_style =
     \<lparr>bold = Some True, italic = Some True, underline = Some True, strikethrough = Some True,
      link = Some \<lparr>url = Some ''http://x''\<rparr>\<rparr>"

text \<open>The elements of the body of a content source.\<close>

definition source_elements :: "document + body option \<Rightarrow> structuralElement list" where
  "source_elements cs =
     (case contentSource_body cs of
        None \<Rightarrow> []
      | Some b \<Rightarrow> (case body_content b of None \<Rightarrow> [] | Some els \<Rightarrow> els))"

text \<open>A document with a bold run and a table of one row, and the calls that read a
  document as text or as markdown.\<close>

definition hi_document :: document where
  "hi_document =
     legacy_document
       [paragraph_element 4 (sample_paragraph None False [styled_run ''Hi '' (Some (sample_style True False))]),
        StructuralElement (Some 20) None
          (Some (Table (Some [TableRow (Some [text_cell ''a'', text_cell ''b''])]))) None]"

definition read_text :: "rat option \<Rightarrow> readGoogleDoc_args" where
  "read_text m = \<lparr>documentId = ''d'', rd_format = FormatText, rd_maxLength = m, rd_tabId = None\<rparr>"

definition read_markdown :: "rat option \<Rightarrow> readGoogleDoc_args" where
  "read_markdown m = \<lparr>documentId = ''d'', rd_format = FormatMarkdown, rd_maxLength = m, rd_tabId = None\<rparr>"

text \<open>Sample calls of \<open>applyTextStyle\<close>, \<open>editTableCell\<close> and \<open>findElement\<close>.\<close>

definition style_range_call :: applyTextStyle_args where
  "style_range_call =
     \<lparr>documentId = ''d'',
      ats_target = \<lparr>tg_startIndex = Some 2, tg_endIndex = Some 6, tg_textToFind = None,
                    tg_matchInstance = None, tg_indexWithinParagraph = None\<rparr>,
      ats_style = empty_style\<rparr>"

definition edit_cell_call :: "rat \<Rightarrow> unit editTableCell_args" where
  "edit_cell_call i =
     \<lparr>documentId = ''d'', tableStartIndex = i, rowIndex = 0, columnIndex = 0,
      textContent = Some ''x'', etc_textStyle = None, etc_paragraphStyle = None\<rparr>"

definition find_call :: findElement_args where
  "find_call = \<lparr>documentId = ''d'', textQuery = Some ''x'', fe_elementType = Some ElementTable\<rparr>"

text \<open>The text of a content source: the content of its text runs, in document order.\<close>

definition source_text :: "document + body option \<Rightarrow> string" where
  "source_text cs = concat (map run_text (all_text_runs (source_elements cs)))"

text \<open>
  A service that honours the field mask of the plain-text read. The request of a text read
  without \<open>tabId\<close> names only \<open>body.content.paragraph.elements.textRun.content\<close>; a
  service that returns what the mask names, and nothing else, answers with the paragraphs
  and the content of their runs, without tables, section breaks, indices or styles. Every
  other request gets the whole document.
\<close>

definition text_fields :: string where
  "text_fields = ''body(content(paragraph(elements(textRun(content)))))''"

definition masked_run :: "paragraphElement \<Rightarrow> paragraphElement" where
  "masked_run pe =
     \<lparr>textRun = (case textRun pe of
                    None \<Rightarrow> None
                  | Some tr \<Rightarrow> Some \<lparr>content = content tr, textStyle = None\<rparr>)\<rparr>"

definition masked_element :: "structuralElement \<Rightarrow> structuralElement" where
  "masked_element el =
     StructuralElement None
       (case el_paragraph el of
          None \<Rightarrow> None
        | Some p \<Rightarrow>
            Some \<lparr>elements = (case elements p of None \<Rightarrow> None | Some pes \<Rightarrow> Some (map masked_run pes)),
                  paragraphStyle = None, bullet = None\<rparr>)
       None None"

definition partial_response :: "string \<Rightarrow> document \<Rightarrow> document" where
  "partial_response flds doc =
     (if flds = text_fields then
        \<lparr>doc_body =
           (case doc_body doc of
              None \<Rightarrow> None
            | Some b \<Rightarrow>
                Some \<lparr>body_content =
                        (case body_content b of None \<Rightarrow> None | Some els \<Rightarrow> Some (map masked_element els))\<rparr>),
         tabs = None\<rparr>
      else doc)"

definition masking_env ::
  "document \<Rightarrow> ((string \<times> unit request list) list, unit) env" where
  "masking_env doc =
     (test_env doc None None)\<lparr>documents_get := (\<lambda>s r. Inr (partial_response (get_fields r) doc))\<rparr>"

text \<open>The sample document with a table as the only tab of a document, a text read of that
  tab, a document of one bold paragraph, and an empty document as the service returns it:
  a section break and a paragraph holding a newline.\<close>

definition hi_tab_document :: document where
  "hi_tab_document =
     tabbed_document
       [sample_tab ''t1''
          (Some [paragraph_element 4
                   (sample_paragraph None False [styled_run ''Hi '' (Some (sample_style True False))]),
                 StructuralElement (Some 20) None
                   (Some (Table (Some [TableRow (Some [text_cell ''a'', text_cell ''b''])]))) None])
          []]"

definition read_text_tab :: readGoogleDoc_args where
  "read_text_tab =
     \<lparr>documentId = ''d'', rd_format = FormatText, rd_maxLength = None, rd_tabId = Some ''t1''\<rparr>"

definition hello_document :: document where
  "hello_document =
     legacy_document
       [paragraph_element 13
          (sample_paragraph None False [styled_run ''Hello world'' (Some (sample_style True False))])]"

definition empty_google_doc :: document where
  "empty_google_doc =
     legacy_document
       [StructuralElement (Some 1) None None (Some ()),
        paragraph_element 2 (sample_paragraph None False [styled_run [CHR 0x0A] None])]"

section \<open>Tab resolution fails before any mutation\<close>

lemma find_append_case:
  "List.find P (xs @ ys) = (case List.find P xs of None \<Rightarrow> List.find P ys | Some x \<Rightarrow> Some x)"
  by (induction xs) auto

lemma searchTabs_find:
  "searchTabs ts tid = List.find (\<lambda>t. tab_id t = Some tid) (all_tabs ts)"
proof (induction ts tid rule: searchTabs.induct)
  case (1 tid)
  then show ?case by simp
next
  case (2 props dt ts tid)
  then show ?case by (simp add: tab_id_def)
next
  case (3 props dt cs ts tid)
  then show ?case
    by (simp add: tab_id_def find_append_case split: option.splits)
qed

lemma findTabById_find:
  "findTabById doc tid = List.find (\<lambda>t. tab_id t = Some tid) (document_tabs doc)"
  by (simp add: findTabById_def document_tabs_def searchTabs_find split: option.splits)

lemma tab_lookup_not_found:
  assumes "\<not> (\<exists>t\<in>set (document_tabs doc). tab_id t = Some tid)"
  shows "tab_lookup doc tid = Inl (UserError (''Tab with ID '' @ quoted tid @ '' not found in document.''))"
proof -
  have "findTabById doc tid = None"
    using assms by (simp add: findTabById_find find_None_iff)
  then show ?thesis by (simp add: tab_lookup_def)
qed

lemma tab_lookup_no_content:
  assumes "List.find (\<lambda>t. tab_id t = Some tid) (document_tabs doc) = Some tb"
    and "documentTab tb = None"
  shows "tab_lookup doc tid =
    Inl (UserError (''Tab '' @ quoted tid @ '' does not have content (may not be a document tab).''))"
  using assms by (simp add: tab_lookup_def findTabById_find)

lemma readGoogleDoc_tab_error:
  assumes "rd_tabId ra = Some tid" "tid \<noteq> []"
    and "documents_get env s (readGoogleDoc_request ra) = Inr doc"
    and "tab_lookup doc tid = Inl (UserError m)"
  shows "readGoogleDoc_execute env ra s = (Inl (UserError m), s)"
  using assms
  by (simp add: readGoogleDoc_execute_def readGoogleDoc_contentSource_def truthy_string_def
      readGoogleDoc_catch_def)

lemma appendToGoogleDoc_tab_error:
  assumes "ap_tabId aa = Some tid" "tid \<noteq> []"
    and "documents_get env s (appendToGoogleDoc_request aa) = Inr doc"
    and "tab_lookup doc tid = Inl (UserError m)"
  shows "appendToGoogleDoc_execute env aa s = (Inl (UserError m), s)"
  using assms
  by (simp add: appendToGoogleDoc_execute_def appendToGoogleDoc_bodyContent_def truthy_string_def
      catch_user_notimpl_def)

lemma insertText_tab_error:
  assumes "it_tabId ia = Some tid" "tid \<noteq> []"
    and "documents_get env s (tab_check_request (documentId ia)) = Inr doc"
    and "tab_lookup doc tid = Inl (UserError m)"
  shows "insertText_execute env ia s = (Inl (UserError m), s)"
  using assms
  by (simp add: insertText_execute_def truthy_string_def catch_user_def Let_def)

lemma deleteRange_tab_error:
  assumes "dr_tabId da = Some tid" "tid \<noteq> []" "dr_startIndex da < dr_endIndex da"
    and "documents_get env s (tab_check_request (documentId da)) = Inr doc"
    and "tab_lookup doc tid = Inl (UserError m)"
  shows "deleteRange_execute env da s = (Inl (UserError m), s)"
  using assms
  by (simp add: deleteRange_execute_def truthy_string_def catch_user_def)

text \<open>
  Claim C1, as amended. A tool called with a non-empty \<open>tabId\<close>, once the document is
  fetched: if no tab of the document has that identifier the tool fails with the
  tab-not-found error, and if the first tab that has it lacks a \<open>documentTab\<close> the tool
  fails with the no-content error. This holds for \<open>readGoogleDoc\<close>,
  \<open>appendToGoogleDoc\<close>, \<open>insertText\<close> and, when \<open>startIndex < endIndex\<close>,
  \<open>deleteRange\<close>; the state of the remote service is the one the tool started in, so
  no batch was submitted.
\<close>

theorem tab_errors_before_mutation:
  assumes tid: "tid \<noteq> []"
    and failure:
      "(\<not> (\<exists>t\<in>set (document_tabs doc). tab_id t = Some tid) \<and>
          e = UserError (''Tab with ID '' @ quoted tid @ '' not found in document.'')) \<or>
       (\<exists>tb. List.find (\<lambda>t. tab_id t = Some tid) (document_tabs doc) = Some tb \<and>
          documentTab tb = None \<and>
          e = UserError (''Tab '' @ quoted tid @ '' does not have content (may not be a document tab).''))"
  shows
    "(rd_tabId ra = Some tid \<and> documents_get env s (readGoogleDoc_request ra) = Inr doc
        \<longrightarrow> readGoogleDoc_execute env ra s = (Inl e, s)) \<and>
     (ap_tabId aa = Some tid \<and> documents_get env s (appendToGoogleDoc_request aa) = Inr doc
        \<longrightarrow> appendToGoogleDoc_execute env aa s = (Inl e, s)) \<and>
     (it_tabId ia = Some tid \<and> documents_get env s (tab_check_request (documentId ia)) = Inr doc
        \<longrightarrow> insertText_execute env ia s = (Inl e, s)) \<and>
     (dr_tabId da = Some tid \<and> dr_startIndex da < dr_endIndex da \<and>
      documents_get env s (tab_check_request (documentId da)) = Inr doc
        \<longrightarrow> deleteRange_execute env da s = (Inl e, s))"
proof -
  from failure obtain m where e: "e = UserError m" and lk: "tab_lookup doc tid = Inl (UserError m)"
    using tab_lookup_not_found tab_lookup_no_content by blast
  show ?thesis
    unfolding e
  proof (intro conjI impI)
    assume "rd_tabId ra = Some tid \<and> documents_get env s (readGoogleDoc_request ra) = Inr doc"
    then show "readGoogleDoc_execute env ra s = (Inl (UserError m), s)"
      by (intro readGoogleDoc_tab_error [OF _ tid _ lk]) simp_all
  next
    assume "ap_tabId aa = Some tid \<and> documents_get env s (appendToGoogleDoc_request aa) = Inr doc"
    then show "appendToGoogleDoc_execute env aa s = (Inl (UserError m), s)"
      by (intro appendToGoogleDoc_tab_error [OF _ tid _ lk]) simp_all
  next
    assume "it_tabId ia = Some tid \<and> documents_get env s (tab_check_request (documentId ia)) = Inr doc"
    then show "insertText_execute env ia s = (Inl (UserError m), s)"
      by (intro insertText_tab_error [OF _ tid _ lk]) simp_all
  next
    assume "dr_tabId da = Some tid \<and> dr_startIndex da < dr_endIndex da \<and>
      documents_get env s (tab_check_request (documentId da)) = Inr doc"
    then show "deleteRange_execute env da s = (Inl (UserError m), s)"
      by (intro deleteRange_tab_error [OF _ tid _ _ lk]) simp_all
  qed
qed

text \<open>The theorem at work: a tab identifier no tab has, and a tab without a
  \<open>documentTab\<close>.\<close>

theorem tab_errors_before_mutation_witness:
  "deleteRange_execute (test_env (tabbed_document [sample_tab ''t1'' None []]) None None)
     \<lparr>documentId = ''d'', dr_startIndex = 1, dr_endIndex = 5, dr_tabId = Some ''t9''\<rparr> [] =
     (Inl (UserError (''Tab with ID '' @ quoted ''t9'' @ '' not found in document.'')), []) \<and>
   insertText_execute (test_env (tabbed_document [sample_tab ''t1'' None []]) None None)
     \<lparr>documentId = ''d'', it_textToInsert = ''x'', it_index = 1, it_tabId = Some ''t1''\<rparr> [] =
     (Inl (UserError (''Tab '' @ quoted ''t1'' @ '' does not have content (may not be a document tab).'')), [])"
proof -
  let ?doc = "tabbed_document [sample_tab ''t1'' None []]"
  let ?env = "test_env ?doc None None"
  have n9: "''t9'' \<noteq> []" and n1: "''t1'' \<noteq> []" by simp_all
  have f9: "(\<not> (\<exists>t\<in>set (document_tabs ?doc). tab_id t = Some ''t9'') \<and>
          UserError (''Tab with ID '' @ quoted ''t9'' @ '' not found in document.'') =
          UserError (''Tab with ID '' @ quoted ''t9'' @ '' not found in document.'')) \<or>
       (\<exists>tb. List.find (\<lambda>t. tab_id t = Some ''t9'') (document_tabs ?doc) = Some tb \<and>
          documentTab tb = None \<and>
          UserError (''Tab with ID '' @ quoted ''t9'' @ '' not found in document.'') =
          UserError (''Tab '' @ quoted ''t9'' @ '' does not have content (may not be a document tab).''))"
    by (simp add: document_tabs_def tabbed_document_def sample_tab_def tab_id_def)
  have f1: "(\<not> (\<exists>t\<in>set (document_tabs ?doc). tab_id t = Some ''t1'') \<and>
          UserError (''Tab '' @ quoted ''t1'' @ '' does not have content (may not be a document tab).'') =
          UserError (''Tab with ID '' @ quoted ''t1'' @ '' not found in document.'')) \<or>
       (\<exists>tb. List.find (\<lambda>t. tab_id t = Some ''t1'') (document_tabs ?doc) = Some tb \<and>
          documentTab tb = None \<and>
          UserError (''Tab '' @ quoted ''t1'' @ '' does not have content (may not be a document tab).'') =
          UserError (''Tab '' @ quoted ''t1'' @ '' does not have content (may not be a document tab).''))"
    by (simp add: document_tabs_def tabbed_document_def sample_tab_def tab_id_def)
  have a: "deleteRange_execute ?env
     \<lparr>documentId = ''d'', dr_startIndex = 1, dr_endIndex = 5, dr_tabId = Some ''t9''\<rparr> [] =
     (Inl (UserError (''Tab with ID '' @ quoted ''t9'' @ '' not found in document.'')), [])"
    using tab_errors_before_mutation [OF n9 f9, where env = ?env and s = "[]"
        and da = "\<lparr>documentId = ''d'', dr_startIndex = 1, dr_endIndex = 5, dr_tabId = Some ''t9''\<rparr>"]
    by (simp add: test_env_def)
  have b: "insertText_execute ?env
     \<lparr>documentId = ''d'', it_textToInsert = ''x'', it_index = 1, it_tabId = Some ''t1''\<rparr> [] =
     (Inl (UserError (''Tab '' @ quoted ''t1'' @ '' does not have content (may not be a document tab).'')), [])"
    using tab_errors_before_mutation [OF n1 f1, where env = ?env and s = "[]"
        and ia = "\<lparr>documentId = ''d'', it_textToInsert = ''x'', it_index = 1, it_tabId = Some ''t1''\<rparr>"]
    by (simp add: test_env_def)
  from a b show ?thesis by simp
qed

text \<open>
  Claim C1 as stated fails for an explicit but empty \<open>tabId\<close>: the handlers test
  \<open>args.tabId\<close> for truthiness, so the empty string counts as no tab at all. No tab
  matches it, yet \<open>deleteRange\<close> neither looks for a tab nor fails, and submits its
  batch.
\<close>

theorem explicit_empty_tabId_counterexample:
  "document_tabs (legacy_document []) = [] \<and>
   deleteRange_execute (test_env (legacy_document []) None None)
     \<lparr>documentId = ''d'', dr_startIndex = 1, dr_endIndex = 5, dr_tabId = Some ''''\<rparr> [] =
   (Inr ''Successfully deleted content in range 1-5.'',
    [(''d'', [DeleteContentRange \<lparr>startIndex = 1, endIndex = 5, range_tabId = None\<rparr>])])"
proof -
  have d: "string_of_int 1 = ''1''" "string_of_int 5 = ''5''" by code_simp+
  show ?thesis
    by (simp add: document_tabs_def legacy_document_def deleteRange_execute_def test_env_def
        truthy_string_def d)
qed

section \<open>Invalid ranges are rejected before any mutation\<close>

lemma deleteRange_issues_refine:
  "dr_endIndex da \<le> dr_startIndex da \<Longrightarrow>
     ''endIndex must be greater than startIndex'' \<in> set (deleteRange_issues env da)"
  by (simp add: deleteRange_issues_def)

lemma deleteRange_tool_invalid:
  assumes "dr_endIndex da \<le> dr_startIndex da"
  shows "deleteRange_tool env da s = (Inl (ValidationError (deleteRange_issues env da)), s)"
proof -
  have "deleteRange_issues env da \<noteq> []"
    using deleteRange_issues_refine [OF assms, of env] by auto
  then show ?thesis by (simp add: deleteRange_tool_def)
qed

lemma deleteRange_execute_invalid:
  "dr_endIndex da \<le> dr_startIndex da \<Longrightarrow>
     deleteRange_execute env da s =
       (Inl (UserError ''End index must be greater than start index for deletion.''), s)"
  by (simp add: deleteRange_execute_def)

lemma applyTextStyle_invalid:
  "applyTextStyle_resolve env ta s = Inr (Some a, Some b) \<Longrightarrow> b \<le> a \<Longrightarrow>
     applyTextStyle_execute env ta s =
       (Inl (UserError ''End index must be greater than start index for styling.''), s)"
  by (simp add: applyTextStyle_execute_def)

lemma applyParagraphStyle_invalid:
  "applyParagraphStyle_resolve env pa s = Inr (Some a, Some b) \<Longrightarrow> b \<le> a \<Longrightarrow>
     applyParagraphStyle_execute env pa s =
       (Inl (UserError (''Invalid paragraph range: end index ('' @ string_of_int b @
                        '') must be greater than start index ('' @ string_of_int a @ '').'')), s)"
  by (simp add: applyParagraphStyle_execute_def)

text \<open>
  Claim C2. When the range a tool has resolved has \<open>endIndex \<le> startIndex\<close>, the tool
  fails with its invalid-range error and the state of the remote service is the one it
  started in: no batch is submitted. For \<open>deleteRange\<close> the schema already refuses
  the call, and the handler would refuse it too; for \<open>applyTextStyle\<close> and
  \<open>applyParagraphStyle\<close> the range is the one the target gives or the one the text and
  paragraph lookups return.
\<close>

theorem invalid_range_rejected:
  "(dr_endIndex da \<le> dr_startIndex da \<longrightarrow>
      deleteRange_tool env da s = (Inl (ValidationError (deleteRange_issues env da)), s) \<and>
      ''endIndex must be greater than startIndex'' \<in> set (deleteRange_issues env da) \<and>
      deleteRange_execute env da s =
        (Inl (UserError ''End index must be greater than start index for deletion.''), s)) \<and>
   (applyTextStyle_resolve env ta s = Inr (Some a, Some b) \<and> b \<le> a \<longrightarrow>
      applyTextStyle_execute env ta s =
        (Inl (UserError ''End index must be greater than start index for styling.''), s)) \<and>
   (applyParagraphStyle_resolve env pa s = Inr (Some a', Some b') \<and> b' \<le> a' \<longrightarrow>
      applyParagraphStyle_execute env pa s =
        (Inl (UserError (''Invalid paragraph range: end index ('' @ string_of_int b' @
                         '') must be greater than start index ('' @ string_of_int a' @ '').'')), s))"
  using deleteRange_tool_invalid [of da env s] deleteRange_issues_refine [of da env]
    deleteRange_execute_invalid [of da env s] applyTextStyle_invalid [of env ta s a b]
    applyParagraphStyle_invalid [of env pa s a' b']
  by simp

text \<open>The theorem at work: a reversed range for \<open>deleteRange\<close>, a reversed range
  returned by the text lookup, and an empty paragraph range.\<close>

theorem invalid_range_rejected_witness:
  "deleteRange_tool (test_env (legacy_document []) None None)
     \<lparr>documentId = ''d'', dr_startIndex = 5, dr_endIndex = 3, dr_tabId = None\<rparr> [] =
     (Inl (ValidationError [''endIndex must be greater than startIndex'']), []) \<and>
   deleteRange_execute (test_env (legacy_document []) None None)
     \<lparr>documentId = ''d'', dr_startIndex = 5, dr_endIndex = 3, dr_tabId = None\<rparr> [] =
     (Inl (UserError ''End index must be greater than start index for deletion.''), []) \<and>
   applyTextStyle_execute
     (test_env (legacy_document []) (Some \<lparr>startIndex = 9, endIndex = 4, range_tabId = None\<rparr>) None)
     \<lparr>documentId = ''d'',
      ats_target = \<lparr>tg_startIndex = None, tg_endIndex = None, tg_textToFind = Some ''x'',
                    tg_matchInstance = Some 1, tg_indexWithinParagraph = None\<rparr>,
      ats_style = empty_style\<lparr>ts_bold := Some True\<rparr>\<rparr> [] =
     (Inl (UserError ''End index must be greater than start index for styling.''), []) \<and>
   applyParagraphStyle_execute (test_env (legacy_document []) None None)
     \<lparr>documentId = ''d'',
      aps_target = \<lparr>tg_startIndex = Some 7, tg_endIndex = Some 7, tg_textToFind = None,
                    tg_matchInstance = None, tg_indexWithinParagraph = None\<rparr>,
      aps_style = ()\<rparr> [] =
     (Inl (UserError ''Invalid paragraph range: end index (7) must be greater than start index (7).''), [])"
proof -
  have d: "string_of_int 7 = ''7''" by code_simp
  show ?thesis
    using invalid_range_rejected
      [where env = "test_env (legacy_document []) None None" and s = "[]"
        and da = "\<lparr>documentId = ''d'', dr_startIndex = 5, dr_endIndex = 3, dr_tabId = None\<rparr>"
        and pa = "\<lparr>documentId = ''d'',
            aps_target = \<lparr>tg_startIndex = Some 7, tg_endIndex = Some 7, tg_textToFind = None,
                    tg_matchInstance = None, tg_indexWithinParagraph = None\<rparr>,
            aps_style = ()\<rparr>"
        and a' = 7 and b' = 7]
      invalid_range_rejected
      [where env = "test_env (legacy_document [])
                      (Some \<lparr>startIndex = 9, endIndex = 4, range_tabId = None\<rparr>) None"
        and s = "[]"
        and ta = "\<lparr>documentId = ''d'',
            ats_target = \<lparr>tg_startIndex = None, tg_endIndex = None, tg_textToFind = Some ''x'',
                    tg_matchInstance = Some 1, tg_indexWithinParagraph = None\<rparr>,
            ats_style = empty_style\<lparr>ts_bold := Some True\<rparr>\<rparr>"
        and a = 9 and b = 4]
    by (simp add: d deleteRange_issues_def test_env_def applyTextStyle_resolve_def
        applyParagraphStyle_resolve_def)
qed

section \<open>appendToGoogleDoc prepends a newline\<close>

lemma append_newline_step:
  assumes "ap_addNewlineIfNeeded aa"
    and "documents_get env s (appendToGoogleDoc_request aa) = Inr doc"
    and "appendToGoogleDoc_bodyContent aa doc = Inr (Some els)"
    and "els \<noteq> []" and "el_endIndex (last els) = Some e" and "1 < e - 1"
  shows "append_endIndex (Some els) = e - 1"
  using assms by (simp add: append_endIndex_def truthy_int_def)

text \<open>
  Claim C10. With \<open>addNewlineIfNeeded\<close> true, a fetched document whose body content has
  a last element with \<open>endIndex = e\<close> and \<open>e - 1 > 1\<close>: the tool submits exactly one
  batch, made of one \<open>insertText\<close> request at index \<open>e - 1\<close> whose text is a newline
  followed by the text to append, and its result is that batch's outcome. Nothing in the
  hypotheses looks at the text of the document, so this holds also when it already ends
  with a newline.
\<close>

theorem append_prepends_newline:
  assumes "ap_addNewlineIfNeeded aa"
    and "documents_get env s (appendToGoogleDoc_request aa) = Inr doc"
    and "appendToGoogleDoc_bodyContent aa doc = Inr (Some els)"
    and "els \<noteq> []" and "el_endIndex (last els) = Some e" and "1 < e - 1"
  shows "appendToGoogleDoc_execute env aa s =
     (case executeBatchUpdate env (documentId aa)
             [InsertText \<lparr>index = e - 1,
                          loc_tabId = (if truthy_string (ap_tabId aa) then ap_tabId aa else None)\<rparr>
                (CHR 0x0A # ap_textToAppend aa)] s of
        (Inl err, s') \<Rightarrow> (Inl (catch_user_notimpl ''Failed to append to doc: '' err), s')
      | (Inr u, s') \<Rightarrow>
          (Inr (''Successfully appended text to '' @
                (if truthy_string (ap_tabId aa) then ''tab '' @ the (ap_tabId aa) @ '' in '' else []) @
                ''document '' @ documentId aa @ ''.''), s'))"
  using assms append_newline_step [OF assms]
  by (simp add: appendToGoogleDoc_execute_def append_location_def)

text \<open>The theorem at work on a document that ends with a newline.\<close>

theorem append_prepends_newline_witness:
  "appendToGoogleDoc_execute
     (test_env (legacy_document
        [paragraph_element 7 (sample_paragraph None False [styled_run (''Hello'' @ [CHR 0x0A]) None])])
        None None)
     \<lparr>documentId = ''d'', ap_textToAppend = ''more'', ap_addNewlineIfNeeded = True, ap_tabId = None\<rparr> [] =
   (Inr ''Successfully appended text to document d.'',
    [(''d'', [InsertText \<lparr>index = 6, loc_tabId = None\<rparr> (CHR 0x0A # ''more'')])])"
  using append_prepends_newline
    [where env = "test_env (legacy_document
        [paragraph_element 7 (sample_paragraph None False [styled_run (''Hello'' @ [CHR 0x0A]) None])])
        None None"
      and s = "[]"
      and aa = "\<lparr>documentId = ''d'', ap_textToAppend = ''more'', ap_addNewlineIfNeeded = True,
                 ap_tabId = None\<rparr>"
      and doc = "legacy_document
        [paragraph_element 7 (sample_paragraph None False [styled_run (''Hello'' @ [CHR 0x0A]) None])]"
      and els = "[paragraph_element 7 (sample_paragraph None False [styled_run (''Hello'' @ [CHR 0x0A]) None])]"
      and e = 7]
  by (simp add: test_env_def appendToGoogleDoc_bodyContent_def legacy_document_def
      paragraph_element_def truthy_string_def)

section \<open>The colour validators of formatMatchingText\<close>

lemma char_code_inject: "char_code c = char_code d \<longleftrightarrow> c = d"
  by (simp add: char_code_def)

lemma hex_codes:
  "\<forall>k\<in>{48, 49, 50, 51, 52, 53, 54, 55, 56, 57, 65, 66, 67, 68, 69, 70, 97, 98, 99, 100, 101, 102}.
     \<exists>d\<in>set ''0123456789abcdefABCDEF''. char_code d = k"
  by (simp add: char_code_def)

lemma hex_class_digit:
  "in_class [(48, 57), (65, 70), (97, 102)] c = is_hex_digit c"
proof
  assume "in_class [(48, 57), (65, 70), (97, 102)] c"
  then have "char_code c \<in> {48, 49, 50, 51, 52, 53, 54, 55, 56, 57, 65, 66, 67, 68, 69, 70,
                              97, 98, 99, 100, 101, 102}"
    by (simp add: in_class_def) arith
  with hex_codes obtain d where "d \<in> set ''0123456789abcdefABCDEF''" "char_code d = char_code c"
    by blast
  then show "is_hex_digit c"
    by (simp add: is_hex_digit_def char_code_inject)
next
  assume "is_hex_digit c"
  then show "in_class [(48, 57), (65, 70), (97, 102)] c"
    by (auto simp: is_hex_digit_def in_class_def char_code_def)
qed

lemma rep_class:
  "rep_match (re_match (CharClass rs)) n s =
     (if n \<le> length s \<and> list_all (in_class rs) (take n s) then [drop n s] else [])"
proof (induction n arbitrary: s)
  case 0
  then show ?case by simp
next
  case (Suc n)
  then show ?case by (cases s) auto
qed

lemma rep_class_done:
  "[] \<in> set (rep_match (re_match (CharClass rs)) n s) \<longleftrightarrow>
     length s = n \<and> list_all (in_class rs) s"
  by (auto simp: rep_class)

lemma color_ok_iff:
  "color_ok c \<longleftrightarrow>
     (\<exists>ds. (c = ds \<or> c = CHR ''#'' # ds) \<and> (length ds = 3 \<or> length ds = 6) \<and>
           list_all is_hex_digit ds)"
proof -
  let ?A = "\<lambda>x. (length x = 3 \<or> length x = 6) \<and> list_all is_hex_digit x"
  have alt: "[] \<in> set (re_match (Alt (Rep 3 hex_class) (Rep 6 hex_class)) x) \<longleftrightarrow> ?A x" for x
    using hex_class_digit
    by (auto simp: hex_class_def rep_class_done list_all_iff)
  have "color_ok c \<longleftrightarrow> ?A c \<or> (\<exists>ds. c = CHR ''#'' # ds \<and> ?A ds)"
    unfolding color_ok_def regex_test_def color_regex_def
    using alt by (cases c) (auto simp del: re_match.simps(4) simp add: re_match.simps(1,3,5))
  then show ?thesis by blast
qed

lemma color_issue_raised:
  "\<not> color_ok c \<Longrightarrow> color_issues msg (Some c) = [msg]"
  by (simp add: color_issues_def)

lemma formatMatchingText_tool_issue:
  assumes "m \<in> set (formatMatchingText_issues env fa)"
  shows "formatMatchingText_tool env fa s = (Inl (ValidationError (formatMatchingText_issues env fa)), s)"
proof -
  from assms have "formatMatchingText_issues env fa \<noteq> []" by auto
  then show ?thesis by (simp add: formatMatchingText_tool_def)
qed

lemma foreground_rejected:
  assumes "fm_foregroundColor fa = Some c" "\<not> color_ok c"
  shows "''Invalid hex color format (e.g., #FF0000 or #F00)'' \<in> set (formatMatchingText_issues env fa)"
  using assms by (simp add: formatMatchingText_issues_def color_issue_raised)

lemma background_rejected:
  assumes "fm_backgroundColor fa = Some c" "\<not> color_ok c"
  shows "''Invalid hex color format (e.g., #00FF00 or #0F0)'' \<in> set (formatMatchingText_issues env fa)"
  using assms by (simp add: formatMatchingText_issues_def color_issue_raised)

text \<open>
  Claim C5. The regular expression of the two colour validators accepts a string exactly
  when it is three or six hexadecimal digits, with or without one leading \<open>#\<close>; an
  accepted colour raises no issue; a rejected foreground or background colour makes the
  tool fail with a validation error that carries the validator's message, and the state of
  the remote service is the one the call started in.
\<close>

theorem color_validator_exact:
  "(color_ok c \<longleftrightarrow>
      (\<exists>ds. (c = ds \<or> c = CHR ''#'' # ds) \<and> (length ds = 3 \<or> length ds = 6) \<and>
            list_all is_hex_digit ds)) \<and>
   (color_ok c \<longrightarrow> color_issues msg (Some c) = []) \<and>
   (fm_foregroundColor fa = Some c \<and> \<not> color_ok c \<longrightarrow>
      formatMatchingText_tool env fa s =
        (Inl (ValidationError (formatMatchingText_issues env fa)), s) \<and>
      ''Invalid hex color format (e.g., #FF0000 or #F00)'' \<in> set (formatMatchingText_issues env fa)) \<and>
   (fm_backgroundColor fa = Some c \<and> \<not> color_ok c \<longrightarrow>
      formatMatchingText_tool env fa s =
        (Inl (ValidationError (formatMatchingText_issues env fa)), s) \<and>
      ''Invalid hex color format (e.g., #00FF00 or #0F0)'' \<in> set (formatMatchingText_issues env fa))"
proof (intro conjI impI)
  show "color_ok c \<longleftrightarrow>
      (\<exists>ds. (c = ds \<or> c = CHR ''#'' # ds) \<and> (length ds = 3 \<or> length ds = 6) \<and>
            list_all is_hex_digit ds)"
    by (rule color_ok_iff)
next
  assume "color_ok c"
  then show "color_issues msg (Some c) = []" by (simp add: color_issues_def)
next
  assume h: "fm_foregroundColor fa = Some c \<and> \<not> color_ok c"
  then show fg: "''Invalid hex color format (e.g., #FF0000 or #F00)''
      \<in> set (formatMatchingText_issues env fa)"
    using foreground_rejected by blast
  show "formatMatchingText_tool env fa s =
        (Inl (ValidationError (formatMatchingText_issues env fa)), s)"
    by (rule formatMatchingText_tool_issue [OF fg])
next
  assume h: "fm_backgroundColor fa = Some c \<and> \<not> color_ok c"
  then show bg: "''Invalid hex color format (e.g., #00FF00 or #0F0)''
      \<in> set (formatMatchingText_issues env fa)"
    using background_rejected by blast
  show "formatMatchingText_tool env fa s =
        (Inl (ValidationError (formatMatchingText_issues env fa)), s)"
    by (rule formatMatchingText_tool_issue [OF bg])
qed

text \<open>The theorem at work: three accepted colours, with and without \<open>#\<close>, and a
  rejected one.\<close>

theorem color_validator_exact_witness:
  "color_ok ''#FFF'' \<and> color_ok ''#FFFFFF'' \<and> color_ok ''FFFFFF'' \<and> \<not> color_ok ''#FFFF'' \<and>
   formatMatchingText_tool (test_env (legacy_document []) None None) bad_color_call [] =
     (Inl (ValidationError [''Invalid hex color format (e.g., #FF0000 or #F00)'']), [])"
proof -
  have n: "\<not> color_ok ''#FFFF''"
    using color_validator_exact [where c = "''#FFFF''", THEN conjunct1]
    by (simp add: is_hex_digit_def conj_disj_distribR ex_disj_distrib)
  have p: "color_ok ''#FFF''" "color_ok ''#FFFFFF''" "color_ok ''FFFFFF''"
    using color_validator_exact [where c = "''#FFF''", THEN conjunct1]
      color_validator_exact [where c = "''#FFFFFF''", THEN conjunct1]
      color_validator_exact [where c = "''FFFFFF''", THEN conjunct1]
    by (simp_all add: is_hex_digit_def conj_disj_distribR ex_disj_distrib)
  have i: "formatMatchingText_issues (test_env (legacy_document []) None None) bad_color_call =
      [''Invalid hex color format (e.g., #FF0000 or #F00)'']"
    using n
    by (simp add: formatMatchingText_issues_def bad_color_call_def no_options_def
        has_formatting_option_def color_issues_def)
  have f: "fm_foregroundColor bad_color_call = Some ''#FFFF''"
    by (simp add: bad_color_call_def no_options_def)
  have t: "formatMatchingText_tool (test_env (legacy_document []) None None) bad_color_call [] =
     (Inl (ValidationError [''Invalid hex color format (e.g., #FF0000 or #F00)'']), [])"
    using color_validator_exact [where c = "''#FFFF''" and fa = bad_color_call
        and env = "test_env (legacy_document []) None None" and s = "[]"] n f
    unfolding i by blast
  from n p t show ?thesis by simp
qed

section \<open>The markdown projection of a table\<close>

lemma table_rows_loop_rest:
  "table_rows_loop rows False md =
     md @ concat (map (\<lambda>cs. rowText cs @ [CHR 0x0A]) (List.map_filter tableCells rows))"
  by (induction rows arbitrary: md) (auto simp: map_filter_simps split: option.splits)

lemma table_rows_loop_first:
  "table_rows_loop rows True md =
     md @ (case List.map_filter tableCells rows of
             [] \<Rightarrow> []
           | cs # rest \<Rightarrow>
               rowText cs @ [CHR 0x0A] @ separator (length cs) @ [CHR 0x0A] @
               concat (map (\<lambda>c. rowText c @ [CHR 0x0A]) rest))"
  by (induction rows arbitrary: md)
     (auto simp: map_filter_simps table_rows_loop_rest split: option.splits)

lemma set_trim: "set (trim s) \<subseteq> set s"
proof -
  have "set (trim s) \<subseteq> set (rev (dropWhile js_whitespace s))"
    unfolding trim_def using set_dropWhileD by fastforce
  also have "\<dots> \<subseteq> set s" using set_dropWhileD by fastforce
  finally show ?thesis .
qed

lemma no_newline_replaced: "CHR 0x0A \<notin> set (replace_newlines s)"
  by (auto simp: replace_newlines_def)

lemma no_newline_cell_run: "CHR 0x0A \<notin> set (cell_run_text pe)"
  using set_trim no_newline_replaced
  by (fastforce simp: cell_run_text_def split: option.splits)

lemma no_newline_cell_element: "CHR 0x0A \<notin> set (cell_element_text el)"
  using no_newline_cell_run by (auto simp: cell_element_text_def split: option.splits)

lemma no_newline_cellText: "CHR 0x0A \<notin> set (cellText cell)"
  using no_newline_cell_element by (auto simp: cellText_def split: option.splits)

lemma no_newline_rowText: "CHR 0x0A \<notin> set (rowText cells)"
  using no_newline_cellText by (auto simp: rowText_def)

lemma no_newline_separator: "CHR 0x0A \<notin> set (separator n)"
  by (auto simp: separator_def)

text \<open>
  Claim C6, as amended. A table without rows projects to the empty string. A table with
  rows projects to a newline, one line for every row that has a \<open>tableCells\<close> array
  (a row without one is skipped), and a closing newline; the separator line follows the
  line of the first row that has cells, with one \<open>---\<close> for each cell of that row. A
  row's line is \<open>|\<close> followed by \<open>text |\<close> for each cell, the separator is
  \<open>|\<close> followed by \<open>--- |\<close> for each cell, and neither holds a newline, whatever the
  cells contain.
\<close>

theorem table_projection:
  "(tableRows t = None \<or> tableRows t = Some [] \<longrightarrow> convertTableToMarkdown t = []) \<and>
   (tableRows t = Some rows \<and> rows \<noteq> [] \<longrightarrow>
      convertTableToMarkdown t =
        [CHR 0x0A] @
        (case List.map_filter tableCells rows of
           [] \<Rightarrow> []
         | cs # rest \<Rightarrow>
             rowText cs @ [CHR 0x0A] @ separator (length cs) @ [CHR 0x0A] @
             concat (map (\<lambda>c. rowText c @ [CHR 0x0A]) rest)) @
        [CHR 0x0A]) \<and>
   rowText cells = ''|'' @ concat (map (\<lambda>cell. '' '' @ cellText cell @ '' |'') cells) \<and>
   separator n = ''|'' @ concat (replicate n '' --- |'') \<and>
   CHR 0x0A \<notin> set (rowText cells) \<and> CHR 0x0A \<notin> set (separator n)"
proof (intro conjI impI)
  assume "tableRows t = None \<or> tableRows t = Some []"
  then show "convertTableToMarkdown t = []"
    by (auto simp: convertTableToMarkdown_def)
next
  assume "tableRows t = Some rows \<and> rows \<noteq> []"
  then show "convertTableToMarkdown t =
        [CHR 0x0A] @
        (case List.map_filter tableCells rows of
           [] \<Rightarrow> []
         | cs # rest \<Rightarrow>
             rowText cs @ [CHR 0x0A] @ separator (length cs) @ [CHR 0x0A] @
             concat (map (\<lambda>c. rowText c @ [CHR 0x0A]) rest)) @
        [CHR 0x0A]"
    by (simp add: convertTableToMarkdown_def table_rows_loop_first)
next
  show "CHR 0x0A \<notin> set (rowText cells)" by (rule no_newline_rowText)
next
  show "CHR 0x0A \<notin> set (separator n)" by (rule no_newline_separator)
qed (simp_all add: rowText_def separator_def)

text \<open>The theorem at work on a table of two rows, and on one with none.\<close>

theorem table_projection_witness:
  "convertTableToMarkdown
     (Table (Some [TableRow (Some [text_cell ''Name'', text_cell ''Age'']),
                   TableRow (Some [text_cell ''Ann'', text_cell ''7''])])) =
   [CHR 0x0A] @ ''| Name | Age |'' @ [CHR 0x0A] @ ''| --- | --- |'' @ [CHR 0x0A] @
   ''| Ann | 7 |'' @ [CHR 0x0A] @ [CHR 0x0A] \<and>
   convertTableToMarkdown (Table (Some [])) = []"
proof -
  have e: "convertTableToMarkdown (Table (Some [])) = []"
    using table_projection [where t = "Table (Some [])", THEN conjunct1] by simp
  have c: "cellText (text_cell ''Name'') = ''Name''" "cellText (text_cell ''Age'') = ''Age''"
    "cellText (text_cell ''Ann'') = ''Ann''" "cellText (text_cell ''7'') = ''7''"
    by code_simp+
  show ?thesis
    using table_projection
      [where t = "Table (Some [TableRow (Some [text_cell ''Name'', text_cell ''Age'']),
                   TableRow (Some [text_cell ''Ann'', text_cell ''7''])])"
        and rows = "[TableRow (Some [text_cell ''Name'', text_cell ''Age'']),
                   TableRow (Some [text_cell ''Ann'', text_cell ''7''])]",
        THEN conjunct2, THEN conjunct1]
    by (simp add: map_filter_simps rowText_def separator_def c e)
qed

text \<open>
  Claim C6 as stated fails when a row has no \<open>tableCells\<close>: the loop returns early for
  it, so a table of two rows projects to a single row line, and the separator follows the
  second row, not the first.
\<close>

theorem skipped_row_counterexample:
  "tableRows skipped_row_table = Some [TableRow None, TableRow (Some [text_cell ''a''])] \<and>
   convertTableToMarkdown skipped_row_table =
     [CHR 0x0A] @ ''| a |'' @ [CHR 0x0A] @ ''| --- |'' @ [CHR 0x0A] @ [CHR 0x0A] \<and>
   claimed_table_markdown [TableRow None, TableRow (Some [text_cell ''a''])] =
     [CHR 0x0A] @ ''|'' @ [CHR 0x0A] @ ''|'' @ [CHR 0x0A] @ ''| a |'' @ [CHR 0x0A] @ [CHR 0x0A] \<and>
   convertTableToMarkdown skipped_row_table \<noteq>
     claimed_table_markdown [TableRow None, TableRow (Some [text_cell ''a''])]"
  by code_simp

section \<open>The markdown projection of paragraphs and runs\<close>

lemma char_code_digit: "(d::nat) < 10 \<Longrightarrow> char_code (char_of (48 + d)) = 48 + d"
  by (simp add: char_code_def)

lemma dec_digit_char: "(d::nat) < 10 \<Longrightarrow> dec_digit (char_of (48 + d))"
  by (simp add: dec_digit_def char_code_digit)

lemma string_of_nat_digits: "string_of_nat n \<noteq> [] \<and> list_all dec_digit (string_of_nat n)"
proof (induction n rule: string_of_nat.induct)
  case (1 n)
  show ?case
  proof (cases "n < 10")
    case True
    then show ?thesis by (subst string_of_nat.simps, subst string_of_nat.simps) (simp add: dec_digit_char)
  next
    case False
    have "n mod 10 < 10" by simp
    then have "dec_digit (char_of (48 + n mod 10))" by (rule dec_digit_char)
    with False 1 show ?thesis
      by (subst string_of_nat.simps, subst string_of_nat.simps) simp
  qed
qed

lemma digit_value_dec: "dec_digit c \<Longrightarrow> digit_value c = Some (char_code c - 48)"
  by (simp add: digit_value_def dec_digit_def Let_def)

lemma digits_value_snoc:
  "digits_value r (ds @ [c]) =
     digits_value r ds * r + (case digit_value c of None \<Rightarrow> 0 | Some d \<Rightarrow> d)"
  by (simp add: digits_value_def)

lemma digits_value_string_of_nat: "digits_value 10 (string_of_nat n) = n"
proof (induction n rule: string_of_nat.induct)
  case (1 n)
  show ?case
  proof (cases "n < 10")
    case True
    then have "string_of_nat n = [char_of (48 + n)]" by (subst string_of_nat.simps) simp
    with True show ?thesis
      by (simp add: digits_value_def digit_value_dec dec_digit_char char_code_digit)
  next
    case False
    have m: "n mod 10 < 10" by simp
    from False have "string_of_nat n = string_of_nat (n div 10) @ [char_of (48 + n mod 10)]"
      by (subst string_of_nat.simps) simp
    with False 1 m show ?thesis
      by (simp add: digits_value_snoc digit_value_dec dec_digit_char char_code_digit)
  qed
qed

lemma dec_digit_facts:
  assumes "dec_digit c"
  shows "\<not> js_whitespace c" "c \<noteq> CHR ''-''" "c \<noteq> CHR ''+''" "c \<noteq> CHR ''x''" "c \<noteq> CHR ''X''"
    "is_digit 10 c"
  using assms
  by (auto simp: dec_digit_def js_whitespace_def is_digit_def digit_value_def char_code_def Let_def)

lemma parse_digits_all:
  assumes "ds \<noteq> []" "list_all dec_digit ds"
  shows "parse_digits 10 1 ds = Some (int (digits_value 10 ds))"
proof -
  have tw: "takeWhile (is_digit 10) ds = ds"
    using assms(2) dec_digit_facts(6) by (simp add: list_all_iff takeWhile_eq_all_conv)
  show ?thesis
    unfolding parse_digits_def Let_def tw using assms(1) by simp
qed

lemma parseInt_digits:
  assumes "ds \<noteq> []" "list_all dec_digit ds"
  shows "parseInt ds = Some (int (digits_value 10 ds))"
proof -
  obtain c cs where ds: "ds = c # cs" using assms(1) by (cases ds) auto
  with assms(2) have c: "dec_digit c" by simp
  have ws: "dropWhile js_whitespace ds = ds" using ds dec_digit_facts(1) [OF c] by simp
  have nox: "take 2 ds \<noteq> ''0x''" "take 2 ds \<noteq> ''0X''"
  proof -
    show "take 2 ds \<noteq> ''0x''"
    proof (cases cs)
      case Nil
      with ds show ?thesis by simp
    next
      case (Cons d ds')
      with assms(2) ds have "dec_digit d" by simp
      from dec_digit_facts(4) [OF this] Cons ds show ?thesis by simp
    qed
    show "take 2 ds \<noteq> ''0X''"
    proof (cases cs)
      case Nil
      with ds show ?thesis by simp
    next
      case (Cons d ds')
      with assms(2) ds have "dec_digit d" by simp
      from dec_digit_facts(5) [OF this] Cons ds show ?thesis by simp
    qed
  qed
  have sg: "take 1 ds \<noteq> ''-''" "take 1 ds \<noteq> ''+''"
    using ds dec_digit_facts(2,3) [OF c] by simp_all
  show ?thesis
    unfolding parseInt_def Let_def ws
    using sg nox parse_digits_all [OF assms] by simp
qed

lemma parseInt_string_of_nat: "parseInt (string_of_nat n) = Some (int n)"
  using parseInt_digits [of "string_of_nat n"] string_of_nat_digits [of n]
  by (simp add: digits_value_string_of_nat)

lemma headingLevel_heading:
  "namedStyle p = Some (''HEADING_'' @ string_of_nat n) \<Longrightarrow> headingLevel p = Some (Some (int n))"
  by (auto simp: namedStyle_def headingLevel_def truthy_string_def parseInt_string_of_nat
      split: option.splits)

lemma headingLevel_title:
  "namedStyle p = Some ''TITLE'' \<Longrightarrow> headingLevel p = Some (Some 1)"
  by (auto simp: namedStyle_def headingLevel_def truthy_string_def split: option.splits)

lemma headingLevel_subtitle:
  "namedStyle p = Some ''SUBTITLE'' \<Longrightarrow> headingLevel p = Some (Some 2)"
  by (auto simp: namedStyle_def headingLevel_def truthy_string_def split: option.splits)

lemma repeat_hash: "0 \<le> k \<Longrightarrow> repeat ''#'' k = Some (replicate (nat k) CHR ''#'')"
  by (induction "nat k" arbitrary: k) (auto simp: repeat_def replicate_append_same)

lemma heading_render:
  assumes "headingLevel p = Some (Some (int n))" "trim (paragraph_text p) \<noteq> []"
  shows "convertParagraphToMarkdown p =
     Inr (replicate (min n 6) CHR ''#'' @ '' '' @ trim (paragraph_text p) @ [CHR 0x0A, CHR 0x0A])"
proof -
  have "repeat ''#'' (min (int n) 6) = Some (replicate (min n 6) CHR ''#'')"
    using repeat_hash [of "min (int n) 6"] by (simp add: min_def)
  with assms show ?thesis by (simp add: convertParagraphToMarkdown_def Let_def)
qed

lemma bullet_render:
  assumes "headingLevel p = None" "bullet p \<noteq> None" "trim (paragraph_text p) \<noteq> []"
  shows "convertParagraphToMarkdown p = Inr (''- '' @ trim (paragraph_text p) @ [CHR 0x0A])"
  using assms by (simp add: convertParagraphToMarkdown_def Let_def)

lemma blank_render:
  "trim (paragraph_text p) = [] \<Longrightarrow> convertParagraphToMarkdown p = Inr [CHR 0x0A]"
  by (simp add: convertParagraphToMarkdown_def Let_def)

lemma styled_run_render:
  "convertTextRunToMarkdown \<lparr>content = Some c, textStyle = Some st\<rparr> =
     link_wrap st
       (strike_marker st @ underline_wrap st (emphasis_marker st @ c @ emphasis_marker st) @
        strike_marker st)"
  by (cases "link st"; cases "c = []")
     (auto simp: convertTextRunToMarkdown_def truthy_string_def truthy_bool_def Let_def
        link_wrap_def link_url_def strike_marker_def underline_wrap_def emphasis_marker_def
        split: option.splits)

lemma plain_run_render:
  "convertTextRunToMarkdown \<lparr>content = Some c, textStyle = None\<rparr> = c"
  by (simp add: convertTextRunToMarkdown_def truthy_string_def)

lemma section_break_render:
  assumes "el_paragraph el = None" "table el = None" "sectionBreak el \<noteq> None"
  shows "markdown_loop (el # rest) md = markdown_loop rest (md @ [CHR 0x0A] @ ''---'' @ [CHR 0x0A, CHR 0x0A])"
  using assms by simp

text \<open>
  Claim C7, as amended. A paragraph whose trimmed text is not empty renders, when its named
  style is \<open>HEADING_n\<close>, as \<open>min n 6\<close> hashes, a space, the trimmed text and two
  newlines; \<open>TITLE\<close> gives one hash and \<open>SUBTITLE\<close> two; a bulleted paragraph that
  is no heading renders as \<open>- \<close>, the trimmed text and a newline. A paragraph whose
  trimmed text is empty renders as a single newline, whatever its style. A run renders as
  its content between the emphasis markers (\<open>***\<close> for bold and italic, \<open>**\<close> for
  bold, \<open>*\<close> for italic), inside the underline tags when it is underlined and has no
  link, inside \<open>~~\<close> when it is struck through, and the whole as \<open>[text](url)\<close>
  when it has a link with a URL. A section break adds a line \<open>---\<close>.
\<close>

theorem markdown_paragraphs_and_runs:
  "(namedStyle p = Some (''HEADING_'' @ string_of_nat n) \<and> trim (paragraph_text p) \<noteq> [] \<longrightarrow>
      convertParagraphToMarkdown p =
        Inr (replicate (min n 6) CHR ''#'' @ '' '' @ trim (paragraph_text p) @ [CHR 0x0A, CHR 0x0A])) \<and>
   (namedStyle p = Some ''TITLE'' \<and> trim (paragraph_text p) \<noteq> [] \<longrightarrow>
      convertParagraphToMarkdown p = Inr (''# '' @ trim (paragraph_text p) @ [CHR 0x0A, CHR 0x0A])) \<and>
   (namedStyle p = Some ''SUBTITLE'' \<and> trim (paragraph_text p) \<noteq> [] \<longrightarrow>
      convertParagraphToMarkdown p = Inr (''## '' @ trim (paragraph_text p) @ [CHR 0x0A, CHR 0x0A])) \<and>
   (headingLevel p = None \<and> bullet p \<noteq> None \<and> trim (paragraph_text p) \<noteq> [] \<longrightarrow>
      convertParagraphToMarkdown p = Inr (''- '' @ trim (paragraph_text p) @ [CHR 0x0A])) \<and>
   (trim (paragraph_text p) = [] \<longrightarrow> convertParagraphToMarkdown p = Inr [CHR 0x0A]) \<and>
   convertTextRunToMarkdown \<lparr>content = Some c, textStyle = Some st\<rparr> =
     link_wrap st
       (strike_marker st @ underline_wrap st (emphasis_marker st @ c @ emphasis_marker st) @
        strike_marker st) \<and>
   convertTextRunToMarkdown \<lparr>content = Some c, textStyle = None\<rparr> = c \<and>
   (el_paragraph el = None \<and> table el = None \<and> sectionBreak el \<noteq> None \<longrightarrow>
      markdown_loop (el # rest) md =
        markdown_loop rest (md @ [CHR 0x0A] @ ''---'' @ [CHR 0x0A, CHR 0x0A]))"
proof (intro conjI impI)
  assume "namedStyle p = Some (''HEADING_'' @ string_of_nat n) \<and> trim (paragraph_text p) \<noteq> []"
  then show "convertParagraphToMarkdown p =
        Inr (replicate (min n 6) CHR ''#'' @ '' '' @ trim (paragraph_text p) @ [CHR 0x0A, CHR 0x0A])"
    using heading_render [of p n] headingLevel_heading [of p n] by simp
next
  assume "namedStyle p = Some ''TITLE'' \<and> trim (paragraph_text p) \<noteq> []"
  then show "convertParagraphToMarkdown p = Inr (''# '' @ trim (paragraph_text p) @ [CHR 0x0A, CHR 0x0A])"
    using heading_render [of p 1] headingLevel_title [of p] by simp
next
  assume "namedStyle p = Some ''SUBTITLE'' \<and> trim (paragraph_text p) \<noteq> []"
  then show "convertParagraphToMarkdown p = Inr (''## '' @ trim (paragraph_text p) @ [CHR 0x0A, CHR 0x0A])"
    using heading_render [of p 2] headingLevel_subtitle [of p] by (simp add: numeral_2_eq_2)
next
  assume "headingLevel p = None \<and> bullet p \<noteq> None \<and> trim (paragraph_text p) \<noteq> []"
  then show "convertParagraphToMarkdown p = Inr (''- '' @ trim (paragraph_text p) @ [CHR 0x0A])"
    using bullet_render by blast
next
  assume "trim (paragraph_text p) = []"
  then show "convertParagraphToMarkdown p = Inr [CHR 0x0A]" by (rule blank_render)
next
  assume "el_paragraph el = None \<and> table el = None \<and> sectionBreak el \<noteq> None"
  then show "markdown_loop (el # rest) md =
        markdown_loop rest (md @ [CHR 0x0A] @ ''---'' @ [CHR 0x0A, CHR 0x0A])"
    using section_break_render by blast
qed (rule styled_run_render plain_run_render)+

text \<open>The theorem at work: a heading of level 3 with a bold run, a bulleted item, and a
  run with every flag and a link.\<close>

theorem markdown_paragraphs_and_runs_witness:
  "convertParagraphToMarkdown heading3 = Inr (''### **Intro**'' @ [CHR 0x0A, CHR 0x0A]) \<and>
   convertParagraphToMarkdown bullet_item = Inr (''- Item'' @ [CHR 0x0A]) \<and>
   convertTextRunToMarkdown \<lparr>content = Some ''Hi'', textStyle = Some struck_link_style\<rparr> =
     ''[~~***Hi***~~](http://x)''"
proof -
  have h: "namedStyle heading3 = Some (''HEADING_'' @ string_of_nat 3)"
    "trim (paragraph_text heading3) = ''**Intro**''"
    by code_simp+
  have b: "headingLevel bullet_item = None" "bullet bullet_item \<noteq> None"
    "trim (paragraph_text bullet_item) = ''Item''"
    by code_simp+
  have a: "convertParagraphToMarkdown heading3 = Inr (''### **Intro**'' @ [CHR 0x0A, CHR 0x0A])"
    using markdown_paragraphs_and_runs [where p = heading3 and n = 3, THEN conjunct1] h
    by (simp add: numeral_3_eq_3)
  have c: "convertParagraphToMarkdown bullet_item = Inr (''- Item'' @ [CHR 0x0A])"
    using markdown_paragraphs_and_runs [where p = bullet_item] b by simp
  have r: "convertTextRunToMarkdown \<lparr>content = Some ''Hi'', textStyle = Some struck_link_style\<rparr> =
     ''[~~***Hi***~~](http://x)''"
    using markdown_paragraphs_and_runs [where c = "''Hi''" and st = struck_link_style]
    by (simp add: struck_link_style_def link_wrap_def link_url_def strike_marker_def
        underline_wrap_def emphasis_marker_def)
  from a c r show ?thesis by simp
qed

text \<open>
  Claim C7 as stated fails on two paragraphs: a heading whose only run is a newline renders
  as a single newline, without hashes, and a bulleted paragraph with a heading style
  renders as the heading, without \<open>- \<close>.
\<close>

theorem heading_counterexample:
  "namedStyle blank_heading = Some ''HEADING_1'' \<and>
   convertParagraphToMarkdown blank_heading = Inr [CHR 0x0A] \<and>
   namedStyle bulleted_heading = Some ''HEADING_2'' \<and> bullet bulleted_heading \<noteq> None \<and>
   convertParagraphToMarkdown bulleted_heading = Inr (''## Item'' @ [CHR 0x0A, CHR 0x0A])"
  by code_simp

section \<open>A style intent with no attribute\<close>

lemma style_fields_empty: "style_fields empty_style = []"
  by (simp add: style_fields_def empty_style_def present_def)

lemma applyTextStyle_noop:
  assumes "ats_style ta = empty_style"
    and "applyTextStyle_resolve env ta s = Inr (Some a, Some b)" and "a < b"
  shows "applyTextStyle_execute env ta s = (Inr ''No valid text styling options were provided.'', s)"
  using assms
  by (simp add: applyTextStyle_execute_def buildUpdateTextStyleRequest_def style_fields_empty)

lemma applyTextStyle_tool_cases:
  "applyTextStyle_tool env ta s =
     (if applyTextStyle_issues env ta = [] then applyTextStyle_execute env ta s
      else (Inl (ValidationError (applyTextStyle_issues env ta)), s))"
  by (simp add: applyTextStyle_tool_def)

lemma styleParams_empty_no_option:
  "styleParams fa = empty_style \<Longrightarrow> \<not> has_formatting_option fa"
  by (simp add: styleParams_def empty_style_def has_formatting_option_def)

lemma formatMatchingText_tool_rejects:
  assumes "styleParams fa = empty_style"
  shows "formatMatchingText_tool env fa s = (Inl (ValidationError (formatMatchingText_issues env fa)), s)
    \<and> ''At least one formatting option (bold, italic, fontSize, etc.) must be provided.''
        \<in> set (formatMatchingText_issues env fa)"
proof -
  have m: "''At least one formatting option (bold, italic, fontSize, etc.) must be provided.''
        \<in> set (formatMatchingText_issues env fa)"
    using styleParams_empty_no_option [OF assms] by (simp add: formatMatchingText_issues_def)
  then have "formatMatchingText_issues env fa \<noteq> []" by auto
  with m show ?thesis by (simp add: formatMatchingText_tool_def)
qed

lemma formatMatchingText_execute_noop:
  assumes "styleParams fa = empty_style"
    and "findTextRange env s (documentId fa) (fm_textToFind fa) (Some (matchInstance fa)) = Inr (Some r)"
  shows "formatMatchingText_execute env fa s = (Inr ''No valid text styling options were provided.'', s)"
  using assms
  by (simp add: formatMatchingText_execute_def buildUpdateTextStyleRequest_def style_fields_empty)

text \<open>
  Claim C3, as amended. With a valid resolved range and a style intent in which no
  attribute is set, the handler of \<open>applyTextStyle\<close> returns the message
  \<open>No valid text styling options were provided.\<close> as its result and leaves the state of
  the remote service as it was. The \<open>applyTextStyle\<close> tool therefore returns that
  message when its schema, which is declared outside the sources, accepts the call, and
  the schema's validation error when it does not; the state is unchanged either way. A
  call of the \<open>formatMatchingText\<close> tool that sets no formatting option never reaches
  that point: the refinement of its schema rejects it with a validation error, the state
  again unchanged. Only its handler, were it run on such arguments, would return the same
  message.
\<close>

theorem empty_style_is_noop:
  "(ats_style ta = empty_style \<and> applyTextStyle_resolve env ta s = Inr (Some a, Some b) \<and> a < b \<longrightarrow>
      applyTextStyle_execute env ta s = (Inr ''No valid text styling options were provided.'', s) \<and>
      (applyTextStyle_issues env ta = [] \<longrightarrow>
         applyTextStyle_tool env ta s = (Inr ''No valid text styling options were provided.'', s)) \<and>
      (applyTextStyle_issues env ta \<noteq> [] \<longrightarrow>
         applyTextStyle_tool env ta s = (Inl (ValidationError (applyTextStyle_issues env ta)), s))) \<and>
   (styleParams fa = empty_style \<longrightarrow>
      formatMatchingText_tool env fa s =
        (Inl (ValidationError (formatMatchingText_issues env fa)), s) \<and>
      ''At least one formatting option (bold, italic, fontSize, etc.) must be provided.''
        \<in> set (formatMatchingText_issues env fa)) \<and>
   (styleParams fa = empty_style \<and>
    findTextRange env s (documentId fa) (fm_textToFind fa) (Some (matchInstance fa)) = Inr (Some r) \<longrightarrow>
      formatMatchingText_execute env fa s = (Inr ''No valid text styling options were provided.'', s))"
  using applyTextStyle_noop [of ta env s a b] formatMatchingText_tool_rejects [of fa env s]
    formatMatchingText_execute_noop [of fa env s r]
  by (simp add: applyTextStyle_tool_cases)

text \<open>The theorem at work on the \<open>applyTextStyle\<close> tool under a schema that accepts
  the call, and on the two handlers.\<close>

theorem empty_style_is_noop_witness:
  "applyTextStyle_tool (test_env (legacy_document []) None None) style_range_call [] =
     (Inr ''No valid text styling options were provided.'', []) \<and>
   applyTextStyle_execute (test_env (legacy_document []) None None) style_range_call [] =
     (Inr ''No valid text styling options were provided.'', []) \<and>
   formatMatchingText_execute
     (test_env (legacy_document []) (Some \<lparr>startIndex = 2, endIndex = 3, range_tabId = None\<rparr>) None)
     no_options [] =
     (Inr ''No valid text styling options were provided.'', [])"
proof -
  have a: "applyTextStyle_tool (test_env (legacy_document []) None None) style_range_call [] =
     (Inr ''No valid text styling options were provided.'', []) \<and>
   applyTextStyle_execute (test_env (legacy_document []) None None) style_range_call [] =
     (Inr ''No valid text styling options were provided.'', [])"
    using empty_style_is_noop
      [where env = "test_env (legacy_document []) None None" and s = "[]" and ta = style_range_call
        and a = 2 and b = 6, THEN conjunct1]
    by (simp add: applyTextStyle_resolve_def style_range_call_def applyTextStyle_issues_def
        test_env_def)
  have b: "formatMatchingText_execute
     (test_env (legacy_document []) (Some \<lparr>startIndex = 2, endIndex = 3, range_tabId = None\<rparr>) None)
     no_options [] =
     (Inr ''No valid text styling options were provided.'', [])"
    using empty_style_is_noop
      [where env = "test_env (legacy_document [])
                      (Some \<lparr>startIndex = 2, endIndex = 3, range_tabId = None\<rparr>) None"
        and s = "[]" and fa = no_options
        and r = "\<lparr>startIndex = 2, endIndex = 3, range_tabId = None\<rparr>",
        THEN conjunct2, THEN conjunct2]
    by (simp add: styleParams_def no_options_def empty_style_def test_env_def)
  from a b show ?thesis by simp
qed

text \<open>
  Claim C3 as stated fails for \<open>formatMatchingText\<close>: called with no formatting option,
  the tool answers with a validation error, not with the success message.
\<close>

theorem formatMatchingText_no_option_counterexample:
  "styleParams no_options = empty_style \<and>
   formatMatchingText_tool
     (test_env (legacy_document []) (Some \<lparr>startIndex = 2, endIndex = 3, range_tabId = None\<rparr>) None)
     no_options [] =
   (Inl (ValidationError
          [''At least one formatting option (bold, italic, fontSize, etc.) must be provided.'']), [])"
  by (simp add: styleParams_def no_options_def empty_style_def formatMatchingText_tool_def
      formatMatchingText_issues_def has_formatting_option_def color_issues_def)

section \<open>The stubs never succeed\<close>

lemma editTableCell_tool_cases:
  "editTableCell_tool env ea s =
     (Inl (if editTableCell_issues env ea = []
           then NotImplementedError ''Editing table cells is complex and not yet implemented.''
           else ValidationError (editTableCell_issues env ea)), s)"
  by (simp add: editTableCell_tool_def editTableCell_execute_def)

lemma findElement_tool_cases:
  "findElement_tool env fa s =
     (Inl (if findElement_issues env fa = []
           then NotImplementedError ''Finding elements by complex criteria is not yet implemented.''
           else ValidationError (findElement_issues env fa)), s)"
  by (simp add: findElement_tool_def findElement_execute_def)

text \<open>
  Claim C4, as amended. Whatever the arguments and whatever the remote service, a call of
  the \<open>editTableCell\<close> or of the \<open>findElement\<close> tool ends in an error and leaves the
  state of the remote service untouched: neither a read nor a batch is issued and no
  success value is returned. The error is the \<open>NotImplementedError\<close> of the handler when
  the schema accepts the call, and the schema's validation error when it does not, as for
  a table index below 1, a negative row or column index, or an index that is no integer.
\<close>

theorem stub_tools_fail:
  "editTableCell_tool env ea s =
     (Inl (if editTableCell_issues env ea = []
           then NotImplementedError ''Editing table cells is complex and not yet implemented.''
           else ValidationError (editTableCell_issues env ea)), s) \<and>
   findElement_tool env' fa s' =
     (Inl (if findElement_issues env' fa = []
           then NotImplementedError ''Finding elements by complex criteria is not yet implemented.''
           else ValidationError (findElement_issues env' fa)), s') \<and>
   (tableStartIndex ea < 1 \<or> rowIndex ea < 0 \<or> columnIndex ea < 0 \<or>
    of_int \<lfloor>tableStartIndex ea\<rfloor> \<noteq> tableStartIndex ea \<or> of_int \<lfloor>rowIndex ea\<rfloor> \<noteq> rowIndex ea \<or>
    of_int \<lfloor>columnIndex ea\<rfloor> \<noteq> columnIndex ea \<longrightarrow>
      editTableCell_issues env ea \<noteq> []) \<and>
   editTableCell_execute env ea s =
     (Inl (NotImplementedError ''Editing table cells is complex and not yet implemented.''), s) \<and>
   findElement_execute env' fa s' =
     (Inl (NotImplementedError ''Finding elements by complex criteria is not yet implemented.''), s')"
  by (auto simp: editTableCell_tool_cases findElement_tool_cases editTableCell_issues_def
      editTableCell_execute_def findElement_execute_def integer_issue_def)

text \<open>The theorem at work on two accepted calls and on an index the schema refuses.\<close>

theorem stub_tools_fail_witness:
  "editTableCell_tool (test_env (legacy_document []) None None) (edit_cell_call 2) [] =
     (Inl (NotImplementedError ''Editing table cells is complex and not yet implemented.''), []) \<and>
   findElement_tool (test_env (legacy_document []) None None) find_call [] =
     (Inl (NotImplementedError ''Finding elements by complex criteria is not yet implemented.''), []) \<and>
   editTableCell_issues (test_env (legacy_document []) None None) (edit_cell_call (- 3)) \<noteq> []"
  using stub_tools_fail
    [where env = "test_env (legacy_document []) None None" and ea = "edit_cell_call 2" and s = "[]"
      and env' = "test_env (legacy_document []) None None" and fa = find_call and s' = "[]"]
    stub_tools_fail
    [where env = "test_env (legacy_document []) None None" and ea = "edit_cell_call (- 3)" and s = "[]"
      and env' = "test_env (legacy_document []) None None" and fa = find_call and s' = "[]"]
  by (simp add: editTableCell_issues_def findElement_issues_def edit_cell_call_def find_call_def
      test_env_def integer_issue_def)

text \<open>
  Claim C4 as stated fails on a call the schema refuses: with \<open>tableStartIndex = 0\<close> the
  \<open>editTableCell\<close> tool fails with a validation error, not with a
  \<open>NotImplementedError\<close>.
\<close>

theorem invalid_stub_call_counterexample:
  "editTableCell_tool (test_env (legacy_document []) None None) (edit_cell_call 0) [] =
     (Inl (ValidationError [''Number must be greater than or equal to 1'']), [])"
  by (simp add: editTableCell_tool_def editTableCell_issues_def edit_cell_call_def test_env_def
      integer_issue_def)

section \<open>The plain-text read and tables\<close>

text \<open>
  Claim C8 against the code. A text read without \<open>tabId\<close> asks the service for the
  runs of paragraphs only, so on a service that honours the mask the table walk of the
  handler meets no table: for the sample document, whose text with the cells is
  \<open>Hi ab\<close>, the read returns \<open>Hi \<close> under the header for 3 characters. The same
  content read through a tab, where the request names every field, returns \<open>Hi ab\<close>.
\<close>

theorem text_read_misses_tables:
  "get_fields (readGoogleDoc_request (read_text None)) = text_fields \<and>
   source_text (Inl hi_document) = ''Hi ab'' \<and>
   readGoogleDoc_execute (masking_env hi_document) (read_text None) [] =
     (Inr (''Content (3 characters):'' @ [CHR 0x0A] @ ''---'' @ [CHR 0x0A] @ ''Hi ''), []) \<and>
   readGoogleDoc_execute (masking_env hi_tab_document) read_text_tab [] =
     (Inr (''Content (5 characters):'' @ [CHR 0x0A] @ ''---'' @ [CHR 0x0A] @ ''Hi ab''), [])"
  by code_simp

section \<open>Truncation\<close>

lemma run_text_truthy:
  "(if truthy_string (content tr) then the (content tr) else []) = run_text tr"
  by (auto simp: truthy_string_def run_text_def split: option.splits)

lemma text_runs_loop_eq:
  "text_runs_loop pes acc = acc @ concat (map run_text (List.map_filter textRun pes))"
proof (induction pes arbitrary: acc)
  case Nil
  then show ?case by (simp add: map_filter_simps)
next
  case (Cons pe pes)
  show ?case
  proof (cases "textRun pe")
    case None
    with Cons show ?thesis by (simp add: map_filter_simps)
  next
    case (Some tr)
    with Cons run_text_truthy [of tr] show ?thesis
      by (simp add: map_filter_simps split: if_splits)
  qed
qed

lemma text_paragraph_eq:
  "text_paragraph p acc = acc @ concat (map run_text (runs_of_paragraph p))"
  by (simp add: text_paragraph_def runs_of_paragraph_def text_runs_loop_eq split: option.splits)

lemma text_cell_elements_loop_eq:
  "text_cell_elements_loop els acc =
     acc @ concat (map run_text (concat (map (\<lambda>el. runs_of_paragraph (el_paragraph el)) els)))"
  by (induction els arbitrary: acc) (simp_all add: text_paragraph_eq)

lemma text_cells_loop_eq:
  "text_cells_loop cells acc = acc @ concat (map run_text (concat (map runs_of_cell cells)))"
  by (induction cells arbitrary: acc)
     (simp_all add: text_cell_elements_loop_eq runs_of_cell_def split: option.splits)

lemma text_rows_loop_eq:
  "text_rows_loop rows acc = acc @ concat (map run_text (concat (map runs_of_row rows)))"
  by (induction rows arbitrary: acc)
     (simp_all add: text_cells_loop_eq runs_of_row_def split: option.splits)

lemma text_table_eq:
  "text_table t acc = acc @ concat (map run_text (runs_of_table t))"
  by (simp add: text_table_def runs_of_table_def text_rows_loop_eq split: option.splits)

lemma text_elements_loop_eq:
  "text_elements_loop els acc = acc @ concat (map run_text (all_text_runs els))"
  by (induction els arbitrary: acc)
     (simp_all add: all_text_runs_def text_table_eq text_paragraph_eq)

lemma extract_text_eq:
  "extract_text (contentSource_body cs) = concat (map run_text (all_text_runs (source_elements cs)))"
  by (simp add: extract_text_def source_elements_def text_elements_loop_eq all_text_runs_def
      split: option.splits)

lemma source_text_eq: "extract_text (contentSource_body cs) = source_text cs"
  by (simp add: extract_text_eq source_text_def)

lemma readGoogleDoc_text_result:
  assumes "rd_format ra = FormatText"
    and "documents_get env s (readGoogleDoc_request ra) = Inr doc"
    and "readGoogleDoc_contentSource ra doc = Inr cs"
  shows "readGoogleDoc_execute env ra s = (Inr (text_result env (rd_maxLength ra) (source_text cs)), s)"
  using assms by (simp add: readGoogleDoc_execute_def readGoogleDoc_project_def source_text_eq)

lemma readGoogleDoc_markdown_result:
  assumes "rd_format ra = FormatMarkdown"
    and "documents_get env s (readGoogleDoc_request ra) = Inr doc"
    and "readGoogleDoc_contentSource ra doc = Inr cs"
    and "convertDocsJsonToMarkdown (contentSource_body cs) = Inr md"
  shows "readGoogleDoc_execute env ra s = (Inr (markdown_result env (rd_maxLength ra) md), s)"
  using assms by (simp add: readGoogleDoc_execute_def readGoogleDoc_project_def)

lemma number_string_integer:
  "exact_integer m \<Longrightarrow> number_string env m = string_of_int \<lfloor>m\<rfloor>"
  by (simp add: number_string_def)

lemma number_minus_integer:
  assumes "exact_integer m" "exact_integer (of_int n - m)"
  shows "number_string env (number_minus env (of_int n) m) = string_of_int (n - \<lfloor>m\<rfloor>)"
proof -
  from assms(1) have "of_int \<lfloor>m\<rfloor> = m" unfolding exact_integer_def by (rule conjunct1)
  then have m: "m = of_int \<lfloor>m\<rfloor>" by (rule sym)
  have "\<lfloor>of_int n - m\<rfloor> = n - \<lfloor>m\<rfloor>"
    by (subst m) (simp only: of_int_diff [symmetric] floor_of_int)
  with assms(2) show ?thesis by (simp add: number_minus_def number_string_def)
qed

text \<open>
  Claim C9, as amended. With the document fetched and the content source chosen, a read
  in markdown format with projection \<open>md\<close>, or in text format with text
  \<open>source_text cs\<close>: when \<open>maxLength\<close> is a number \<open>m\<close> other than 0 and the
  content is longer than \<open>m\<close>, the result holds the first \<open>\<lfloor>m\<rfloor>\<close> characters of the
  content, none when \<open>m\<close> is negative; in markdown format they are followed by a marker
  with \<open>m\<close> and the total length, and in text format, when the text is not blank, they
  stand between a header with \<open>m\<close> and the total length and a trailer with the total
  length minus \<open>m\<close>. When \<open>maxLength\<close> is absent, is 0, or is not exceeded, the
  markdown result is \<open>md\<close> and the text result is the text under its header. A blank
  text gives the empty-document message in every case. The numbers are printed by the
  runtime; an integer below \<open>2^53\<close> shows its decimal digits, and so does the
  difference when it is one.
\<close>

theorem readGoogleDoc_truncation:
  assumes "documents_get env s (readGoogleDoc_request ra) = Inr doc"
    and "readGoogleDoc_contentSource ra doc = Inr cs"
  shows
    "(rd_format ra = FormatMarkdown \<and> convertDocsJsonToMarkdown (contentSource_body cs) = Inr md \<and>
      rd_maxLength ra = Some m \<and> m \<noteq> 0 \<and> m < of_int (int (length md)) \<longrightarrow>
        readGoogleDoc_execute env ra s =
          (Inr (take (nat \<lfloor>m\<rfloor>) md @ [CHR 0x0A, CHR 0x0A] @
                ''... [Markdown truncated to '' @ number_string env m @ '' chars of '' @
                string_of_int (int (length md)) @
                '' total. Use maxLength parameter to adjust limit or remove it to get full content.]''), s)) \<and>
     (rd_format ra = FormatMarkdown \<and> convertDocsJsonToMarkdown (contentSource_body cs) = Inr md \<and>
      (rd_maxLength ra = None \<or> rd_maxLength ra = Some 0 \<or>
       (\<exists>k. rd_maxLength ra = Some k \<and> of_int (int (length md)) \<le> k)) \<longrightarrow>
        readGoogleDoc_execute env ra s = (Inr md, s)) \<and>
     (rd_format ra = FormatText \<and> trim (source_text cs) \<noteq> [] \<and>
      rd_maxLength ra = Some m \<and> m \<noteq> 0 \<and> m < of_int (int (length (source_text cs))) \<longrightarrow>
        readGoogleDoc_execute env ra s =
          (Inr (''Content (truncated to '' @ number_string env m @ '' chars of '' @
                string_of_int (int (length (source_text cs))) @ '' total):'' @ [CHR 0x0A] @
                ''---'' @ [CHR 0x0A] @
                take (nat \<lfloor>m\<rfloor>) (source_text cs) @ [CHR 0x0A, CHR 0x0A] @
                ''... [Document continues for '' @
                number_string env (number_minus env (of_int (int (length (source_text cs)))) m) @
                '' more characters. Use maxLength parameter to adjust limit or remove it to get full content.]''), s)) \<and>
     (rd_format ra = FormatText \<and> trim (source_text cs) \<noteq> [] \<and>
      (rd_maxLength ra = None \<or> rd_maxLength ra = Some 0 \<or>
       (\<exists>k. rd_maxLength ra = Some k \<and> of_int (int (length (source_text cs))) \<le> k)) \<longrightarrow>
        readGoogleDoc_execute env ra s =
          (Inr (''Content ('' @ string_of_int (int (length (source_text cs))) @ '' characters):'' @
                [CHR 0x0A] @ ''---'' @ [CHR 0x0A] @ source_text cs), s)) \<and>
     (rd_format ra = FormatText \<and> trim (source_text cs) = [] \<longrightarrow>
        readGoogleDoc_execute env ra s = (Inr ''Document found, but appears empty.'', s)) \<and>
     (exact_integer m \<longrightarrow> number_string env m = string_of_int \<lfloor>m\<rfloor>) \<and>
     (exact_integer m \<and> exact_integer (of_int n - m) \<longrightarrow>
        number_string env (number_minus env (of_int n) m) = string_of_int (n - \<lfloor>m\<rfloor>))"
proof (intro conjI impI)
  assume h: "rd_format ra = FormatMarkdown \<and> convertDocsJsonToMarkdown (contentSource_body cs) = Inr md \<and>
      rd_maxLength ra = Some m \<and> m \<noteq> 0 \<and> m < of_int (int (length md))"
  then have "readGoogleDoc_execute env ra s = (Inr (markdown_result env (rd_maxLength ra) md), s)"
    using readGoogleDoc_markdown_result [OF _ assms] by blast
  with h show "readGoogleDoc_execute env ra s =
          (Inr (take (nat \<lfloor>m\<rfloor>) md @ [CHR 0x0A, CHR 0x0A] @
                ''... [Markdown truncated to '' @ number_string env m @ '' chars of '' @
                string_of_int (int (length md)) @
                '' total. Use maxLength parameter to adjust limit or remove it to get full content.]''), s)"
    by (simp add: markdown_result_def truthy_number_def substring0_def Let_def)
next
  assume h: "rd_format ra = FormatMarkdown \<and> convertDocsJsonToMarkdown (contentSource_body cs) = Inr md \<and>
      (rd_maxLength ra = None \<or> rd_maxLength ra = Some 0 \<or>
       (\<exists>k. rd_maxLength ra = Some k \<and> of_int (int (length md)) \<le> k))"
  then have "readGoogleDoc_execute env ra s = (Inr (markdown_result env (rd_maxLength ra) md), s)"
    using readGoogleDoc_markdown_result [OF _ assms] by blast
  with h show "readGoogleDoc_execute env ra s = (Inr md, s)"
    by (auto simp: markdown_result_def truthy_number_def Let_def)
next
  assume h: "rd_format ra = FormatText \<and> trim (source_text cs) \<noteq> [] \<and>
      rd_maxLength ra = Some m \<and> m \<noteq> 0 \<and> m < of_int (int (length (source_text cs)))"
  then have "readGoogleDoc_execute env ra s =
      (Inr (text_result env (rd_maxLength ra) (source_text cs)), s)"
    using readGoogleDoc_text_result [OF _ assms] by blast
  with h show "readGoogleDoc_execute env ra s =
          (Inr (''Content (truncated to '' @ number_string env m @ '' chars of '' @
                string_of_int (int (length (source_text cs))) @ '' total):'' @ [CHR 0x0A] @
                ''---'' @ [CHR 0x0A] @
                take (nat \<lfloor>m\<rfloor>) (source_text cs) @ [CHR 0x0A, CHR 0x0A] @
                ''... [Document continues for '' @
                number_string env (number_minus env (of_int (int (length (source_text cs)))) m) @
                '' more characters. Use maxLength parameter to adjust limit or remove it to get full content.]''), s)"
    by (simp add: text_result_def truthy_number_def substring0_def Let_def)
next
  assume h: "rd_format ra = FormatText \<and> trim (source_text cs) \<noteq> [] \<and>
      (rd_maxLength ra = None \<or> rd_maxLength ra = Some 0 \<or>
       (\<exists>k. rd_maxLength ra = Some k \<and> of_int (int (length (source_text cs))) \<le> k))"
  then have "readGoogleDoc_execute env ra s =
      (Inr (text_result env (rd_maxLength ra) (source_text cs)), s)"
    using readGoogleDoc_text_result [OF _ assms] by blast
  with h show "readGoogleDoc_execute env ra s =
          (Inr (''Content ('' @ string_of_int (int (length (source_text cs))) @ '' characters):'' @
                [CHR 0x0A] @ ''---'' @ [CHR 0x0A] @ source_text cs), s)"
    by (auto simp: text_result_def truthy_number_def Let_def)
next
  assume h: "rd_format ra = FormatText \<and> trim (source_text cs) = []"
  then have "readGoogleDoc_execute env ra s =
      (Inr (text_result env (rd_maxLength ra) (source_text cs)), s)"
    using readGoogleDoc_text_result [OF _ assms] by blast
  with h show "readGoogleDoc_execute env ra s = (Inr ''Document found, but appears empty.'', s)"
    by (simp add: text_result_def)
next
  assume "exact_integer m"
  then show "number_string env m = string_of_int \<lfloor>m\<rfloor>" by (rule number_string_integer)
next
  assume "exact_integer m \<and> exact_integer (of_int n - m)"
  then show "number_string env (number_minus env (of_int n) m) = string_of_int (n - \<lfloor>m\<rfloor>)"
    using number_minus_integer by blast
qed

text \<open>The theorem at work: a text read cut at 5, markdown reads cut at 4 and not at all,
  and the two reads of an empty document.\<close>

theorem readGoogleDoc_truncation_witness:
  "readGoogleDoc_execute (test_env hello_document None None) (read_text (Some 5)) [] =
     (Inr (''Content (truncated to 5 chars of 11 total):'' @ [CHR 0x0A] @ ''---'' @ [CHR 0x0A] @
           ''Hello'' @ [CHR 0x0A, CHR 0x0A] @
           ''... [Document continues for 6 more characters. Use maxLength parameter to adjust limit or remove it to get full content.]''),
      []) \<and>
   readGoogleDoc_execute (test_env hello_document None None) (read_markdown (Some 4)) [] =
     (Inr (''**He'' @ [CHR 0x0A, CHR 0x0A] @
           ''... [Markdown truncated to 4 chars of 15 total. Use maxLength parameter to adjust limit or remove it to get full content.]''),
      []) \<and>
   readGoogleDoc_execute (test_env hello_document None None) (read_markdown None) [] =
     (Inr ''**Hello world**'', []) \<and>
   readGoogleDoc_execute (test_env empty_google_doc None None) (read_markdown (Some 2)) [] =
     (Inr (''--'' @ [CHR 0x0A, CHR 0x0A] @
           ''... [Markdown truncated to 2 chars of 3 total. Use maxLength parameter to adjust limit or remove it to get full content.]''),
      []) \<and>
   readGoogleDoc_execute (test_env empty_google_doc None None) (read_text (Some 2)) [] =
     (Inr ''Document found, but appears empty.'', [])"
proof -
  let ?env = "test_env hello_document None None :: ((string \<times> unit request list) list, unit) env"
  let ?env' = "test_env empty_google_doc None None :: ((string \<times> unit request list) list, unit) env"
  have md: "convertDocsJsonToMarkdown (contentSource_body (Inl hello_document)) = Inr ''**Hello world**''"
    "convertDocsJsonToMarkdown (contentSource_body (Inl empty_google_doc)) = Inr ''---''"
    by code_simp+
  have tc: "source_text (Inl hello_document) = ''Hello world''"
    "source_text (Inl empty_google_doc) = [CHR 0x0A]" "trim [CHR 0x0A] = []"
    "trim ''Hello world'' \<noteq> []"
    by code_simp+
  have d: "string_of_int 2 = ''2''" "string_of_int 3 = ''3''" "string_of_int 4 = ''4''"
    "string_of_int 5 = ''5''" "string_of_int 6 = ''6''" "string_of_int 11 = ''11''"
    "string_of_int 15 = ''15''"
    by code_simp+
  have g: "documents_get ?env [] (readGoogleDoc_request ra) = Inr hello_document"
    "documents_get ?env' [] (readGoogleDoc_request ra) = Inr empty_google_doc" for ra
    by (simp_all add: test_env_def)
  have c: "readGoogleDoc_contentSource (read_text k) dc = Inr (Inl dc)"
    "readGoogleDoc_contentSource (read_markdown k) dc = Inr (Inl dc)" for k dc
    by (simp_all add: readGoogleDoc_contentSource_def read_text_def read_markdown_def truthy_string_def)
  have a: "readGoogleDoc_execute ?env (read_text (Some 5)) [] =
     (Inr (''Content (truncated to 5 chars of 11 total):'' @ [CHR 0x0A] @ ''---'' @ [CHR 0x0A] @
           ''Hello'' @ [CHR 0x0A, CHR 0x0A] @
           ''... [Document continues for 6 more characters. Use maxLength parameter to adjust limit or remove it to get full content.]''),
      [])"
    using readGoogleDoc_truncation [OF g(1) c(1), where m = 5,
        THEN conjunct2, THEN conjunct2, THEN conjunct1]
    by (simp add: read_text_def tc d number_string_def number_minus_def exact_integer_def)
  have b: "readGoogleDoc_execute ?env (read_markdown (Some 4)) [] =
     (Inr (''**He'' @ [CHR 0x0A, CHR 0x0A] @
           ''... [Markdown truncated to 4 chars of 15 total. Use maxLength parameter to adjust limit or remove it to get full content.]''),
      [])"
    using readGoogleDoc_truncation [OF g(1) c(2), where m = 4 and md = "''**Hello world**''",
        THEN conjunct1]
    by (simp add: read_markdown_def md d number_string_def exact_integer_def)
  have e: "readGoogleDoc_execute ?env (read_markdown None) [] = (Inr ''**Hello world**'', [])"
    using readGoogleDoc_truncation [OF g(1) c(2), where md = "''**Hello world**''",
        THEN conjunct2, THEN conjunct1]
    by (simp add: read_markdown_def md)
  have f: "readGoogleDoc_execute ?env' (read_markdown (Some 2)) [] =
     (Inr (''--'' @ [CHR 0x0A, CHR 0x0A] @
           ''... [Markdown truncated to 2 chars of 3 total. Use maxLength parameter to adjust limit or remove it to get full content.]''),
      [])"
    using readGoogleDoc_truncation [OF g(2) c(2), where m = 2 and md = "''---''", THEN conjunct1]
    by (simp add: read_markdown_def md d number_string_def exact_integer_def)
  have h: "readGoogleDoc_execute ?env' (read_text (Some 2)) [] =
     (Inr ''Document found, but appears empty.'', [])"
    using readGoogleDoc_truncation [OF g(2) c(1),
        THEN conjunct2, THEN conjunct2, THEN conjunct2, THEN conjunct2, THEN conjunct1]
    by (simp add: read_text_def tc)
  from a b e f h show ?thesis by simp
qed

text \<open>
  Claim C9 as stated fails at two limits. The handler tests \<open>args.maxLength\<close> for
  truthiness, so a supplied limit of 0 does not truncate and content longer than 0 comes
  back in full. The schema takes any number, and for the limit 2.5 the result keeps 2
  characters while its header says 2.5.
\<close>

theorem maxLength_counterexample:
  "source_text (Inl hello_document) = ''Hello world'' \<and>
   readGoogleDoc_execute (test_env hello_document None None) (read_text (Some 0)) [] =
     (Inr (''Content (11 characters):'' @ [CHR 0x0A] @ ''---'' @ [CHR 0x0A] @ ''Hello world''), []) \<and>
   readGoogleDoc_execute (test_env hello_document None None) (read_text (Some (5 / 2))) [] =
     (Inr (''Content (truncated to 2.5 chars of 11 total):'' @ [CHR 0x0A] @ ''---'' @ [CHR 0x0A] @
           ''He'' @ [CHR 0x0A, CHR 0x0A] @
           ''... [Document continues for 8.5 more characters. Use maxLength parameter to adjust limit or remove it to get full content.]''),
      [])"
  by code_simp

end
